theory Spec2Isabelle
  imports Complex_Main "HOL-Library.Log_Nat"
begin

section \<open>Error levels and collection (validator.go, lines 24-113)\<close>

text \<open>
  \<^verbatim>\<open>ErrorLevel\<close> is an integer enumeration with the two named values
  \<^verbatim>\<open>LevelWarning = 0\<close> and \<^verbatim>\<open>LevelError = 1\<close>.
\<close>

datatype ErrorLevel = LevelWarning | LevelError

text \<open>The integer behind a level, as the comparison \<^verbatim>\<open>all[i].Level > all[j].Level\<close> reads it.\<close>

fun levelInt :: "ErrorLevel \<Rightarrow> int" where
  "levelInt LevelWarning = 0"
| "levelInt LevelError = 1"

record ValidationError =
  Level :: ErrorLevel
  Path :: string
  Line :: int
  Column :: int
  Message :: string
  Got :: string
  Expected :: string

record ErrorCollector =
  errors :: "ValidationError list"
  warnings :: "ValidationError list"

definition NewErrorCollector :: ErrorCollector where
  "NewErrorCollector = \<lparr>errors = [], warnings = []\<rparr>"

text \<open>\<^verbatim>\<open>ErrorCollector.Add\<close>: an error is appended to the errors, anything else to the warnings.\<close>

definition Add :: "ErrorCollector \<Rightarrow> ValidationError \<Rightarrow> ErrorCollector" where
  "Add c err =
     (if Level err = LevelError then c\<lparr>errors := errors c @ [err]\<rparr>
      else c\<lparr>warnings := warnings c @ [err]\<rparr>)"

definition HasErrors :: "ErrorCollector \<Rightarrow> bool" where
  "HasErrors c = (length (errors c) > 0)"

text \<open>\<^verbatim>\<open>ErrorCollector.All\<close>: all errors followed by all warnings.\<close>

definition All :: "ErrorCollector \<Rightarrow> ValidationError list" where
  "All c = errors c @ warnings c"

section \<open>Validation context (validator.go, lines 119-171)\<close>

record ValidationContext =
  StrictKeys :: bool
  StopOnFirst :: bool
  StrictTypes :: bool
  YAML11Booleans :: bool
  SourceLines :: "string list"
  collector :: ErrorCollector
  stopped :: bool

definition NewValidationContext :: ValidationContext where
  "NewValidationContext =
     \<lparr>StrictKeys = False, StopOnFirst = False, StrictTypes = False, YAML11Booleans = False,
      SourceLines = [], collector = NewErrorCollector, stopped = False\<rparr>"

text \<open>
  \<^verbatim>\<open>ValidationContext.AddError\<close>: nothing happens on a stopped context; otherwise the
  diagnostic goes to the collector, and an error stops the context when
  \<^verbatim>\<open>StopOnFirst\<close> is set.
\<close>

definition AddError :: "ValidationContext \<Rightarrow> ValidationError \<Rightarrow> ValidationContext" where
  "AddError ctx err =
     (if stopped ctx then ctx
      else let ctx1 = ctx\<lparr>collector := Add (collector ctx) err\<rparr>
           in if StopOnFirst ctx1 \<and> Level err = LevelError then ctx1\<lparr>stopped := True\<rparr> else ctx1)"

definition IsStopped :: "ValidationContext \<Rightarrow> bool" where
  "IsStopped ctx = stopped ctx"

definition Collector :: "ValidationContext \<Rightarrow> ErrorCollector" where
  "Collector ctx = collector ctx"

section \<open>Node types, policies and the document tree (validator.go, lines 177-243)\<close>

datatype NodeType =
  TypeAny | TypeNull | TypeString | TypeInt | TypeFloat | TypeBool | TypeMap | TypeSequence

fun NodeType_String :: "NodeType \<Rightarrow> string" where
  "NodeType_String TypeAny = ''any''"
| "NodeType_String TypeNull = ''null''"
| "NodeType_String TypeString = ''string''"
| "NodeType_String TypeInt = ''integer''"
| "NodeType_String TypeFloat = ''float''"
| "NodeType_String TypeBool = ''boolean''"
| "NodeType_String TypeMap = ''map''"
| "NodeType_String TypeSequence = ''sequence''"

datatype UnknownKeyPolicy =
  UnknownKeyInherit | UnknownKeyError | UnknownKeyWarn | UnknownKeyIgnore

text \<open>
  The node of the parser (\<^verbatim>\<open>yaml.Node\<close> of gopkg.in/yaml.v3), with the fields the
  validator reads. \<^verbatim>\<open>Content\<close> holds the children (for a mapping: key, value, key,
  value, ...), \<^verbatim>\<open>Alias\<close> the node an alias points to (\<^verbatim>\<open>None\<close> is the nil pointer).
  Strings are byte strings, as in Go. The selectors \<^verbatim>\<open>NLine\<close> and \<^verbatim>\<open>NColumn\<close> are the
  node's \<^verbatim>\<open>Line\<close> and \<^verbatim>\<open>Column\<close>.
\<close>

datatype Kind = DocumentNode | SequenceNode | MappingNode | ScalarNode | AliasNode

datatype Node = Node
  (Kind: Kind) (Tag: string) (Value: string) (NLine: int) (NColumn: int)
  (Content: "Node list") (Alias: "Node option")

section \<open>Strings and numbers of the Go library\<close>

subsection \<open>Bytes and \<^verbatim>\<open>strings.ToLower\<close>\<close>

definition byte :: "char \<Rightarrow> int" where
  "byte c = of_char c"

text \<open>
  \<^verbatim>\<open>strings.ToLower\<close> on a byte string: an ASCII capital becomes its small letter. Of the
  runes beyond ASCII only two have an ASCII lower case, U+0130 (bytes C4 B0, to \<^verbatim>\<open>i\<close>)
  and U+212A (bytes E2 84 AA, to \<^verbatim>\<open>k\<close>); every other rune beyond ASCII maps to bytes
  beyond ASCII, which this model leaves as they are. The validator only compares the
  result with ASCII literals, and for those comparisons the model agrees with Go.
\<close>

definition lowerASCII :: "char \<Rightarrow> char" where
  "lowerASCII c = (if 65 \<le> byte c \<and> byte c \<le> 90 then char_of (byte c + 32) else c)"

fun ToLower :: "string \<Rightarrow> string" where
  "ToLower [] = []"
| "ToLower (c # cs) =
     (if c = CHR 0xC4 \<and> take 1 cs = [CHR 0xB0] then CHR ''i'' # ToLower (drop 1 cs)
      else if c = CHR 0xE2 \<and> take 2 cs = [CHR 0x84, CHR 0xAA] then CHR ''k'' # ToLower (drop 2 cs)
      else lowerASCII c # ToLower cs)"

text \<open>\<^verbatim>\<open>strings.HasPrefix\<close> and \<^verbatim>\<open>strings.TrimPrefix\<close>.\<close>

definition HasPrefix :: "string \<Rightarrow> string \<Rightarrow> bool" where
  "HasPrefix s p = (take (length p) s = p)"

definition TrimPrefix :: "string \<Rightarrow> string \<Rightarrow> string" where
  "TrimPrefix s p = (if HasPrefix s p then drop (length p) s else s)"

subsection \<open>\<^verbatim>\<open>strconv.ParseInt\<close> at 64 bits\<close>

text \<open>strconv's \<^verbatim>\<open>lower(c)\<close> is \<^verbatim>\<open>c | ('x' - 'X')\<close>: bit 5 set.\<close>

definition lowerBit :: "char \<Rightarrow> int" where
  "lowerBit c = (if even (byte c div 32) then byte c + 32 else byte c)"

definition isDigit :: "char \<Rightarrow> bool" where
  "isDigit c = (48 \<le> byte c \<and> byte c \<le> 57)"

definition digitVal :: "char \<Rightarrow> int option" where
  "digitVal c =
     (if isDigit c then Some (byte c - 48)
      else if 97 \<le> lowerBit c \<and> lowerBit c \<le> 122 then Some (lowerBit c - 97 + 10)
      else None)"

text \<open>
  \<^verbatim>\<open>underscoreOK\<close>: underscores may only separate digits, and only after a base prefix
  was seen. \<^verbatim>\<open>saw\<close> is the class of the last character: the beginning, a digit, an
  underscore or anything else.
\<close>

datatype Saw = SawStart | SawDigit | SawUnderscore | SawOther

fun underscoreLoop :: "bool \<Rightarrow> Saw \<Rightarrow> string \<Rightarrow> bool" where
  "underscoreLoop hex saw [] = (saw \<noteq> SawUnderscore)"
| "underscoreLoop hex saw (c # cs) =
     (if isDigit c \<or> (hex \<and> 97 \<le> lowerBit c \<and> lowerBit c \<le> 102) then underscoreLoop hex SawDigit cs
      else if c = CHR ''_'' then (if saw \<noteq> SawDigit then False else underscoreLoop hex SawUnderscore cs)
      else if saw = SawUnderscore then False
      else underscoreLoop hex SawOther cs)"

definition underscoreOK :: "string \<Rightarrow> bool" where
  "underscoreOK s0 =
     (let s = (if length s0 \<ge> 1 \<and> (hd s0 = CHR ''-'' \<or> hd s0 = CHR ''+'') then tl s0 else s0)
      in if length s \<ge> 2 \<and> hd s = CHR ''0'' \<and>
            (lowerBit (s ! 1) = 98 \<or> lowerBit (s ! 1) = 111 \<or> lowerBit (s ! 1) = 120)
         then underscoreLoop (lowerBit (s ! 1) = 120) SawDigit (drop 2 s)
         else underscoreLoop False SawStart s)"

definition maxUint64 :: int where
  "maxUint64 = 2 ^ 64 - 1"

text \<open>
  The digit loop of \<^verbatim>\<open>ParseUint\<close>: \<^verbatim>\<open>None\<close> is a syntax or a range error (the callers
  only test \<^verbatim>\<open>err == nil\<close>), the result holds the number and whether an underscore was
  seen. The test \<^verbatim>\<open>n1 < n || n1 > maxVal\<close> of the source detects the wrap-around of
  64-bit addition; on unbounded numbers it is \<^verbatim>\<open>n1 > maxVal\<close>.
\<close>

fun parseUintLoop :: "int \<Rightarrow> bool \<Rightarrow> string \<Rightarrow> int \<Rightarrow> bool \<Rightarrow> (int \<times> bool) option" where
  "parseUintLoop base base0 [] n us = Some (n, us)"
| "parseUintLoop base base0 (c # cs) n us =
     (if c = CHR ''_'' \<and> base0 then parseUintLoop base base0 cs n True
      else case digitVal c of
        None \<Rightarrow> None
      | Some d \<Rightarrow>
          if d \<ge> base then None
          else if n \<ge> maxUint64 div base + 1 then None
          else if n * base + d > maxUint64 then None
          else parseUintLoop base base0 cs (n * base + d) us)"

definition ParseUint :: "string \<Rightarrow> int \<Rightarrow> int option" where
  "ParseUint s base =
     (if s = [] then None
      else if base \<noteq> 0 \<and> \<not> (2 \<le> base \<and> base \<le> 36) then None
      else
        let (b, digits) =
          (if base \<noteq> 0 then (base, s)
           else if hd s = CHR ''0'' then
             (if length s \<ge> 3 \<and> lowerBit (s ! 1) = 98 then (2, drop 2 s)
              else if length s \<ge> 3 \<and> lowerBit (s ! 1) = 111 then (8, drop 2 s)
              else if length s \<ge> 3 \<and> lowerBit (s ! 1) = 120 then (16, drop 2 s)
              else (8, drop 1 s))
           else (10, s))
        in case parseUintLoop b (base = 0) digits 0 False of
             None \<Rightarrow> None
           | Some (n, us) \<Rightarrow> if us \<and> \<not> underscoreOK s then None else Some n)"

text \<open>\<^verbatim>\<open>strconv.ParseInt(s, base, 64)\<close>; \<^verbatim>\<open>None\<close> stands for \<^verbatim>\<open>err != nil\<close>.\<close>

definition ParseInt :: "string \<Rightarrow> int \<Rightarrow> int option" where
  "ParseInt s base =
     (if s = [] then None
      else
        let neg = (hd s = CHR ''-'');
            s1 = (if hd s = CHR ''+'' \<or> hd s = CHR ''-'' then tl s else s)
        in case ParseUint s1 base of
             None \<Rightarrow> None
           | Some un \<Rightarrow>
               if \<not> neg \<and> un \<ge> 2 ^ 63 then None
               else if neg \<and> un > 2 ^ 63 then None
               else Some (if neg then - un else un))"

text \<open>\<^verbatim>\<open>strconv.Itoa\<close>, the \<^verbatim>\<open>%d\<close> of \<^verbatim>\<open>fmt.Sprintf\<close>.\<close>

function digitsOf :: "int \<Rightarrow> string" where
  "digitsOf n = (if n < 10 then [char_of (48 + n)] else digitsOf (n div 10) @ [char_of (48 + n mod 10)])"
  by pat_completeness auto
termination
  by (relation "measure nat") auto

declare digitsOf.simps [simp del]

definition Itoa :: "int \<Rightarrow> string" where
  "Itoa n = (if n < 0 then CHR ''-'' # digitsOf (- n) else digitsOf n)"

subsection \<open>\<^verbatim>\<open>float64\<close> and \<^verbatim>\<open>strconv.ParseFloat\<close>\<close>

text \<open>
  A \<^verbatim>\<open>float64\<close> is not-a-number, an infinity (\<^verbatim>\<open>True\<close> for the negative one) or a
  finite value, kept as the rational number it stands for. Negative zero is not told
  apart from zero: they compare equal, which is all the validators look at.
\<close>

datatype float64 = F64NaN | F64Inf bool | F64 rat

fun f64_less :: "float64 \<Rightarrow> float64 \<Rightarrow> bool" where
  "f64_less (F64 a) (F64 b) = (a < b)"
| "f64_less (F64 a) (F64Inf neg) = (\<not> neg)"
| "f64_less (F64Inf neg) (F64 b) = neg"
| "f64_less (F64Inf n1) (F64Inf n2) = (n1 \<and> \<not> n2)"
| "f64_less F64NaN _ = False"
| "f64_less _ F64NaN = False"

fun f64_neg :: "float64 \<Rightarrow> float64" where
  "f64_neg (F64 a) = F64 (- a)"
| "f64_neg (F64Inf neg) = F64Inf (\<not> neg)"
| "f64_neg F64NaN = F64NaN"

function bitLen :: "int \<Rightarrow> int" where
  "bitLen n = (if n \<le> 0 then 0 else 1 + bitLen (n div 2))"
  by pat_completeness auto
termination
  by (relation "measure nat") auto

declare bitLen.simps [simp del]

text \<open>For positive \<^verbatim>\<open>n\<close> and \<^verbatim>\<open>d\<close>: the \<^verbatim>\<open>e\<close> with \<^verbatim>\<open>2^e \<le> n/d < 2^(e+1)\<close>.\<close>

definition ilog2 :: "int \<Rightarrow> int \<Rightarrow> int" where
  "ilog2 n d =
     (let e = bitLen n - bitLen d
      in if (if e \<ge> 0 then d * 2 ^ nat e \<le> n else d \<le> n * 2 ^ nat (- e)) then e else e - 1)"

text \<open>The integer nearest to \<^verbatim>\<open>n/d\<close>, a tie going to the even one.\<close>

definition roundEven :: "int \<Rightarrow> int \<Rightarrow> int" where
  "roundEven n d =
     (let q = n div d; r = n mod d
      in if 2 * r > d \<or> (2 * r = d \<and> odd q) then q + 1 else q)"

text \<open>
  Rounding the non-negative rational \<^verbatim>\<open>n/d\<close> to the nearest \<^verbatim>\<open>float64\<close> (53 bits of
  mantissa, least exponent -1074, ties to even); \<^verbatim>\<open>None\<close> when the rounded value is
  beyond the largest finite \<^verbatim>\<open>float64\<close>.
\<close>

definition roundFloat64 :: "int \<Rightarrow> int \<Rightarrow> rat option" where
  "roundFloat64 n d =
     (if n = 0 then Some 0
      else
        let e = ilog2 n d;
            q = max (e - 52) (- 1074);
            m = (if q \<ge> 0 then roundEven n (d * 2 ^ nat q) else roundEven (n * 2 ^ nat (- q)) d)
        in if q \<ge> 0 \<and> m * 2 ^ nat q \<ge> 2 ^ 1024 then None
           else Some (if q \<ge> 0 then of_int (m * 2 ^ nat q) else of_int m / of_int (2 ^ nat (- q))))"

text \<open>\<^verbatim>\<open>float64(i)\<close> for a 64-bit integer: the nearest \<^verbatim>\<open>float64\<close>.\<close>

definition float64_of_int :: "int \<Rightarrow> float64" where
  "float64_of_int i =
     (case roundFloat64 \<bar>i\<bar> 1 of
        None \<Rightarrow> F64Inf (i < 0)
      | Some v \<Rightarrow> F64 (if i < 0 then - v else v))"

fun commonPrefixLenIgnoreCase :: "string \<Rightarrow> string \<Rightarrow> nat" where
  "commonPrefixLenIgnoreCase (c # cs) (p # ps) =
     (if lowerASCII c \<noteq> p then 0 else Suc (commonPrefixLenIgnoreCase cs ps))"
| "commonPrefixLenIgnoreCase _ _ = 0"

text \<open>\<^verbatim>\<open>special\<close>: the names of the infinities and of not-a-number, with the bytes read.\<close>

definition special_inf :: "string \<Rightarrow> bool \<Rightarrow> nat \<Rightarrow> (float64 \<times> nat) option" where
  "special_inf s neg nsign =
     (let n0 = commonPrefixLenIgnoreCase s ''infinity'';
          n = (if 3 < n0 \<and> n0 < 8 then 3 else n0)
      in if n = 3 \<or> n = 8 then Some (F64Inf neg, nsign + n) else None)"

definition special :: "string \<Rightarrow> (float64 \<times> nat) option" where
  "special s =
     (if s = [] then None
      else if hd s = CHR ''+'' \<or> hd s = CHR ''-'' then special_inf (tl s) (hd s = CHR ''-'') 1
      else if hd s = CHR ''i'' \<or> hd s = CHR ''I'' then special_inf s False 0
      else if hd s = CHR ''n'' \<or> hd s = CHR ''N'' then
        (if commonPrefixLenIgnoreCase s ''nan'' = 3 then Some (F64NaN, 3) else None)
      else None)"

text \<open>
  \<^verbatim>\<open>readFloat\<close>. The mantissa loop reads digits, underscores and one point. Go keeps
  the first 19 digits (16 in base 16) and re-reads the literal when digits were dropped,
  so that the result is the correctly rounded value; the model keeps every digit.
\<close>

record MantState =
  sawdot :: bool
  sawdigits :: bool
  nd :: int
  dp :: int
  mantissa :: int
  underscores :: bool

fun readMantissa :: "int \<Rightarrow> string \<Rightarrow> MantState \<Rightarrow> MantState \<times> string" where
  "readMantissa base [] st = (st, [])"
| "readMantissa base (c # cs) st =
     (if c = CHR ''_'' then readMantissa base cs (st\<lparr>underscores := True\<rparr>)
      else if c = CHR ''.'' then
        (if sawdot st then (st, c # cs)
         else readMantissa base cs (st\<lparr>sawdot := True, dp := nd st\<rparr>))
      else if isDigit c then
        (if c = CHR ''0'' \<and> nd st = 0 then
           readMantissa base cs (st\<lparr>sawdigits := True, dp := dp st - 1\<rparr>)
         else readMantissa base cs
           (st\<lparr>sawdigits := True, nd := nd st + 1, mantissa := mantissa st * base + (byte c - 48)\<rparr>))
      else if base = 16 \<and> 97 \<le> lowerBit c \<and> lowerBit c \<le> 102 then
        readMantissa base cs
          (st\<lparr>sawdigits := True, nd := nd st + 1, mantissa := mantissa st * 16 + (lowerBit c - 97 + 10)\<rparr>)
      else (st, c # cs))"

text \<open>The digits of the exponent: the number stops growing at 10000.\<close>

fun readExponent :: "string \<Rightarrow> int \<Rightarrow> bool \<Rightarrow> int \<times> bool \<times> string" where
  "readExponent [] e us = (e, us, [])"
| "readExponent (c # cs) e us =
     (if c = CHR ''_'' then readExponent cs e True
      else if isDigit c then readExponent cs (if e < 10000 then e * 10 + (byte c - 48) else e) us
      else (e, us, c # cs))"

text \<open>
  The result of \<^verbatim>\<open>readFloat\<close>: the sign, the mantissa, the base of the exponent (2 for
  a hexadecimal literal, 10 otherwise), the exponent, and the text left unread.
\<close>

definition readFloat :: "string \<Rightarrow> (bool \<times> int \<times> int \<times> int \<times> string) option" where
  "readFloat s =
     (if s = [] then None
      else
        let neg = (hd s = CHR ''-'');
            s1 = (if hd s = CHR ''+'' \<or> hd s = CHR ''-'' then tl s else s);
            hex = (length s1 > 2 \<and> hd s1 = CHR ''0'' \<and> lowerBit (s1 ! 1) = 120);
            base = (if hex then 16 else 10);
            s2 = (if hex then drop 2 s1 else s1);
            (st, s3) = readMantissa base s2
               \<lparr>sawdot = False, sawdigits = False, nd = 0, dp = 0, mantissa = 0, underscores = False\<rparr>
        in if \<not> sawdigits st then None
           else
             let dp1 = (if sawdot st then dp st else nd st);
                 dp2 = (if hex then dp1 * 4 else dp1);
                 ndMant = (if hex then nd st * 4 else nd st)
             in if s3 \<noteq> [] \<and> lowerBit (hd s3) = (if hex then 112 else 101) then
                  (let s4 = tl s3
                   in if s4 = [] then None
                      else
                        let esign = (if hd s4 = CHR ''-'' then - 1 else 1);
                            s5 = (if hd s4 = CHR ''+'' \<or> hd s4 = CHR ''-'' then tl s4 else s4)
                        in if s5 = [] \<or> \<not> isDigit (hd s5) then None
                           else
                             let (e, us, s6) = readExponent s5 0 (underscores st);
                                 consumed = take (length s - length s6) s
                             in if us \<and> \<not> underscoreOK consumed then None
                                else Some (neg, mantissa st, if hex then 2 else 10,
                                           (if mantissa st \<noteq> 0 then dp2 + e * esign - ndMant else 0), s6))
                else if hex then None
                else if underscores st \<and> \<not> underscoreOK (take (length s - length s3) s) then None
                else Some (neg, mantissa st, 10, (if mantissa st \<noteq> 0 then dp2 - ndMant else 0), s3))"

text \<open>
  \<^verbatim>\<open>strconv.ParseFloat(s, 64)\<close>; \<^verbatim>\<open>None\<close> stands for \<^verbatim>\<open>err != nil\<close>: a syntax error,
  text left unread, or a value out of range.
\<close>

definition ParseFloat :: "string \<Rightarrow> float64 option" where
  "ParseFloat s =
     (case special s of
        Some (f, n) \<Rightarrow> if n = length s then Some f else None
      | None \<Rightarrow>
          (case readFloat s of
             None \<Rightarrow> None
           | Some (neg, m, b, ex, rest) \<Rightarrow>
               if rest \<noteq> [] then None
               else
                 (case (if ex \<ge> 0 then roundFloat64 (m * b ^ nat ex) 1
                        else roundFloat64 m (b ^ nat (- ex))) of
                    None \<Rightarrow> None
                  | Some v \<Rightarrow> Some (F64 (if neg then - v else v)))))"

subsection \<open>UTF-8 (\<^verbatim>\<open>unicode/utf8\<close>) and \<^verbatim>\<open>strconv.Quote\<close>\<close>

definition RuneError :: int where
  "RuneError = 0xFFFD"

definition contByte :: "char \<Rightarrow> bool" where
  "contByte c = (0x80 \<le> byte c \<and> byte c \<le> 0xBF)"

text \<open>
  \<^verbatim>\<open>utf8.DecodeRuneInString\<close>: the first rune of the string and its width in bytes. An
  empty string gives \<^verbatim>\<open>(RuneError, 0)\<close>, an encoding that is wrong or cut short
  \<^verbatim>\<open>(RuneError, 1)\<close>. The second byte of a sequence has its own range after the lead
  bytes E0, ED, F0 and F4 (no overlong forms, no surrogates, nothing beyond U+10FFFF).
\<close>

definition DecodeRuneInString :: "string \<Rightarrow> int \<times> nat" where
  "DecodeRuneInString s =
     (case s of
        [] \<Rightarrow> (RuneError, 0)
      | c0 # r0 \<Rightarrow>
          let b0 = byte c0 in
          if b0 < 0x80 then (b0, 1)
          else if b0 < 0xC2 \<or> 0xF4 < b0 then (RuneError, 1)
          else
            let sz = (if b0 < 0xE0 then 2 else if b0 < 0xF0 then 3 else 4 :: nat);
                lo = (if b0 = 0xE0 then 0xA0 else if b0 = 0xF0 then 0x90 else 0x80);
                hi = (if b0 = 0xED then 0x9F else if b0 = 0xF4 then 0x8F else 0xBF)
            in if length s < sz then (RuneError, 1)
               else
                 let b1 = byte (s ! 1) in
                 if b1 < lo \<or> hi < b1 then (RuneError, 1)
                 else if sz = 2 then ((b0 mod 0x20) * 0x40 + b1 mod 0x40, 2)
                 else if \<not> contByte (s ! 2) then (RuneError, 1)
                 else if sz = 3 then
                   ((b0 mod 0x10) * 0x1000 + (b1 mod 0x40) * 0x40 + byte (s ! 2) mod 0x40, 3)
                 else if \<not> contByte (s ! 3) then (RuneError, 1)
                 else ((b0 mod 0x08) * 0x40000 + (b1 mod 0x40) * 0x1000 +
                       (byte (s ! 2) mod 0x40) * 0x40 + byte (s ! 3) mod 0x40, 4))"

lemma DecodeRuneInString_width: "s \<noteq> [] \<Longrightarrow> 0 < snd (DecodeRuneInString s)"
  by (cases s) (simp_all add: DecodeRuneInString_def Let_def)

text \<open>
  \<^verbatim>\<open>utf8.AppendRune\<close>: the UTF-8 encoding of a rune; a surrogate or a value out of range
  is written as U+FFFD.
\<close>

definition EncodeRune :: "int \<Rightarrow> string" where
  "EncodeRune r0 =
     (let r = (if r0 < 0 \<or> 0x10FFFF < r0 \<or> (0xD800 \<le> r0 \<and> r0 \<le> 0xDFFF) then RuneError else r0)
      in if r < 0x80 then [char_of r]
         else if r < 0x800 then [char_of (0xC0 + r div 0x40), char_of (0x80 + r mod 0x40)]
         else if r < 0x10000 then
           [char_of (0xE0 + r div 0x1000), char_of (0x80 + (r div 0x40) mod 0x40),
            char_of (0x80 + r mod 0x40)]
         else
           [char_of (0xF0 + r div 0x40000), char_of (0x80 + (r div 0x1000) mod 0x40),
            char_of (0x80 + (r div 0x40) mod 0x40), char_of (0x80 + r mod 0x40)])"

definition lowerhex :: "int \<Rightarrow> char" where
  "lowerhex n = ''0123456789abcdef'' ! nat n"

text \<open>
  \<^verbatim>\<open>appendEscapedRune\<close> for the double quote. Go consults the Unicode tables
  (\<^verbatim>\<open>IsPrint\<close>) for a rune beyond ASCII; the model takes every such rune as printable
  and writes it as it is.
\<close>

definition appendEscapedRune :: "int \<Rightarrow> string" where
  "appendEscapedRune r =
     (if r = 0x22 \<or> r = 0x5C then [CHR 0x5C, char_of r]
      else if (0x20 \<le> r \<and> r < 0x7F) \<or> 0x80 \<le> r then EncodeRune r
      else if r = 7 then [CHR 0x5C, CHR ''a'']
      else if r = 8 then [CHR 0x5C, CHR ''b'']
      else if r = 12 then [CHR 0x5C, CHR ''f'']
      else if r = 10 then [CHR 0x5C, CHR ''n'']
      else if r = 13 then [CHR 0x5C, CHR ''r'']
      else if r = 9 then [CHR 0x5C, CHR ''t'']
      else if r = 11 then [CHR 0x5C, CHR ''v'']
      else [CHR 0x5C, CHR ''x'', lowerhex (r div 16), lowerhex (r mod 16)])"

function quoteLoop :: "string \<Rightarrow> string" where
  "quoteLoop s =
     (if s = [] then []
      else
        let (r, width) = (if byte (hd s) \<ge> 0x80 then DecodeRuneInString s else (byte (hd s), 1))
        in if width = 1 \<and> r = RuneError then
             [CHR 0x5C, CHR ''x'', lowerhex (byte (hd s) div 16), lowerhex (byte (hd s) mod 16)]
               @ quoteLoop (drop 1 s)
           else appendEscapedRune r @ quoteLoop (drop width s))"
  by pat_completeness auto
termination
proof (relation "measure length")
  show "wf (measure length)" by simp
next
  fix s :: string and x :: "int \<times> nat" and xa y
  assume "s \<noteq> []"
    and "x = (if 0x80 \<le> byte (hd s) then DecodeRuneInString s else (byte (hd s), 1))"
    and "(xa, y) = x"
    and "\<not> (y = 1 \<and> xa = RuneError)"
  then have "y = snd (if 0x80 \<le> byte (hd s) then DecodeRuneInString s else (byte (hd s), 1))"
    by (metis snd_conv)
  then have "0 < y"
    using DecodeRuneInString_width [of s] \<open>s \<noteq> []\<close> by (simp split: if_splits)
  then show "(drop y s, s) \<in> measure length"
    using \<open>s \<noteq> []\<close> by simp
next
  fix s :: string and x :: "int \<times> nat" and xa y
  assume "s \<noteq> []"
  then show "(drop 1 s, s) \<in> measure length" by simp
qed

declare quoteLoop.simps [simp del]

text \<open>\<^verbatim>\<open>strconv.Quote\<close>, the \<^verbatim>\<open>%q\<close> of \<^verbatim>\<open>fmt.Sprintf\<close> on a string.\<close>

definition Quote :: "string \<Rightarrow> string" where
  "Quote s = [CHR 0x22] @ quoteLoop s @ [CHR 0x22]"

text \<open>The \<^verbatim>\<open>%v\<close> of a string slice: the elements between brackets, a space between two.\<close>

fun joinWith :: "string \<Rightarrow> string list \<Rightarrow> string" where
  "joinWith sep [] = []"
| "joinWith sep [x] = x"
| "joinWith sep (x # y # ys) = x @ sep @ joinWith sep (y # ys)"

definition fmtStrings :: "string list \<Rightarrow> string" where
  "fmtStrings xs = ''['' @ joinWith '' '' xs @ '']''"

section \<open>Schemas (validator.go, lines 249-372)\<close>

text \<open>
  The two validator interfaces: a validator is any code that is handed the context; the
  model takes it as a function from the context before the call to the context after.
\<close>

type_synonym ValueValidator = "Node \<Rightarrow> string \<Rightarrow> ValidationContext \<Rightarrow> ValidationContext"

type_synonym KeyValidator = "string \<Rightarrow> Node \<Rightarrow> string \<Rightarrow> ValidationContext \<Rightarrow> ValidationContext"

record ConditionalRule =
  ConditionField :: string
  ConditionValue :: string
  ThenRequired :: "string list"
  ThenForbidden :: "string list"

text \<open>
  \<^verbatim>\<open>FieldSchema\<close>. A pointer to a schema is an option. \<^verbatim>\<open>AllowedKeys\<close>, a Go map
  from key to schema, is an association list with distinct keys: a lookup is
  \<^verbatim>\<open>map_of\<close>, and the order of the list stands for the order in which Go happens to
  range over the map. \<^verbatim>\<open>Default\<close>, an \<^verbatim>\<open>interface{}\<close>, is \<^verbatim>\<open>None\<close> for nil and
  otherwise the text that \<^verbatim>\<open>%v\<close> prints for the value.
\<close>

datatype FieldSchema = FieldSchema
  (Type: NodeType) (Required: bool) (Nullable: bool) (Deprecated: string) (Description: string)
  (Default: "string option")
  (AllowedKeys: "(string \<times> FieldSchema) list")
  (AdditionalProperties: "FieldSchema option")
  (UnknownKeyPolicy: UnknownKeyPolicy)
  (KeyValidators: "KeyValidator list")
  (ItemSchema: "FieldSchema option")
  (MinItems: "int option") (MaxItems: "int option")
  (Validators: "ValueValidator list")
  (AnyOf: "string list list") (ExactlyOneOf: "string list") (MutuallyExclusive: "string list")
  (Conditions: "ConditionalRule list")

section \<open>Type inference (validator.go, lines 630-790)\<close>

text \<open>\<^verbatim>\<open>looksLikeInt\<close>: one sign is removed, then the text is parsed by its prefix.\<close>

definition looksLikeInt :: "string \<Rightarrow> bool" where
  "looksLikeInt s0 =
     (if s0 = [] then False
      else
        let s = (if hd s0 = CHR ''+'' \<or> hd s0 = CHR ''-'' then tl s0 else s0)
        in if s = [] then False
           else if length s > 2 \<and> (take 2 s = ''0x'' \<or> take 2 s = ''0X'') then ParseInt s 0 \<noteq> None
           else if length s > 2 \<and> (take 2 s = ''0o'' \<or> take 2 s = ''0O'') then ParseInt (drop 2 s) 8 \<noteq> None
           else if length s > 2 \<and> (take 2 s = ''0b'' \<or> take 2 s = ''0B'') then ParseInt (drop 2 s) 2 \<noteq> None
           else ParseInt s 10 \<noteq> None)"

definition looksLikeFloat :: "string \<Rightarrow> bool" where
  "looksLikeFloat s =
     (let lower = ToLower s
      in if lower = ''.inf'' \<or> lower = ''-.inf'' \<or> lower = ''+.inf'' \<or> lower = ''.nan'' then True
         else if \<not> (\<exists>c \<in> set s. c = CHR ''.'' \<or> c = CHR ''e'' \<or> c = CHR ''E'') then False
         else ParseFloat s \<noteq> None)"

definition isYAML11Bool :: "string \<Rightarrow> bool" where
  "isYAML11Bool lower =
     (lower = ''y'' \<or> lower = ''yes'' \<or> lower = ''true'' \<or> lower = ''on'' \<or>
      lower = ''n'' \<or> lower = ''no'' \<or> lower = ''false'' \<or> lower = ''off'')"

definition inferScalarType :: "Node \<Rightarrow> ValidationContext \<Rightarrow> NodeType" where
  "inferScalarType node ctx =
     (if Tag node = ''!!str'' then
        (if YAML11Booleans ctx \<and> isYAML11Bool (ToLower (Value node)) then TypeBool else TypeString)
      else if Tag node = ''!!int'' then TypeInt
      else if Tag node = ''!!float'' then TypeFloat
      else if Tag node = ''!!bool'' then TypeBool
      else if Tag node = ''!!null'' then TypeNull
      else if StrictTypes ctx then TypeString
      else
        let val = Value node; lower = ToLower val
        in if lower = ''null'' \<or> val = ''~'' then TypeNull
           else if lower = ''true'' \<or> lower = ''false'' then TypeBool
           else if YAML11Booleans ctx \<and> isYAML11Bool lower then TypeBool
           else if looksLikeInt val then TypeInt
           else if looksLikeFloat val then TypeFloat
           else TypeString)"

fun inferType :: "Node \<Rightarrow> ValidationContext \<Rightarrow> NodeType" where
  "inferType (Node k tg v l c content al) ctx =
     (case k of
        MappingNode \<Rightarrow> TypeMap
      | SequenceNode \<Rightarrow> TypeSequence
      | ScalarNode \<Rightarrow> inferScalarType (Node k tg v l c content al) ctx
      | AliasNode \<Rightarrow> (case al of Some a \<Rightarrow> inferType a ctx | None \<Rightarrow> TypeAny)
      | DocumentNode \<Rightarrow> TypeAny)"

definition describeNode :: "Node \<Rightarrow> string" where
  "describeNode node =
     (case Kind node of
        MappingNode \<Rightarrow> ''map''
      | SequenceNode \<Rightarrow> ''sequence (len='' @ Itoa (int (length (Content node))) @ '')''
      | ScalarNode \<Rightarrow>
          (let val = (if length (Value node) > 20 then take 20 (Value node) @ ''...'' else Value node);
               tag0 = TrimPrefix (Tag node) ''!!'';
               tag = (if tag0 = [] then ''scalar'' else tag0)
           in tag @ '' '' @ Quote val)
      | _ \<Rightarrow> Tag node)"

definition joinPath :: "string \<Rightarrow> string \<Rightarrow> string" where
  "joinPath base key = (if base = [] then key else base @ ''.'' @ key)"

definition cleanPath :: "string \<Rightarrow> string" where
  "cleanPath path = TrimPrefix path ''.''"

section \<open>The type check (validator.go, lines 580-628)\<close>

text \<open>\<^verbatim>\<open>checkTypeWithSchema\<close> returns its verdict and the context it leaves.\<close>

definition checkTypeWithSchema ::
  "Node \<Rightarrow> FieldSchema \<Rightarrow> string \<Rightarrow> ValidationContext \<Rightarrow> bool \<times> ValidationContext" where
  "checkTypeWithSchema node schema path ctx =
     (let expected = Type schema
      in if expected = TypeAny then (True, ctx)
         else
           let actual = inferType node ctx
           in if actual = TypeNull then
                (if expected = TypeNull then (True, ctx)
                 else if Nullable schema then (True, ctx)
                 else (False, AddError ctx
                   \<lparr>Level = LevelError, Path = cleanPath path, Line = NLine node, Column = NColumn node,
                    Message = ''unexpected null value'', Got = ''null'',
                    Expected = NodeType_String expected\<rparr>))
              else if actual = expected then (True, ctx)
              else if expected = TypeFloat \<and> actual = TypeInt then (True, ctx)
              else (False, AddError ctx
                \<lparr>Level = LevelError, Path = cleanPath path, Line = NLine node, Column = NColumn node,
                 Message = ''type mismatch'', Got = describeNode node,
                 Expected = NodeType_String expected\<rparr>))"

section \<open>Merge keys (validator.go, lines 856-921)\<close>

text \<open>
  A run-time panic of the Go code (an index out of range, a nil pointer dereferenced) is
  the result \<^verbatim>\<open>None\<close> of the function in which it happens and of its callers.
\<close>

record kvPair =
  kvKey :: Node
  kvValue :: Node

text \<open>
  \<^verbatim>\<open>mappingToPairs\<close>: the children of a mapping taken two by two. A last key without
  a value makes \<^verbatim>\<open>m.Content[i+1]\<close> panic.
\<close>

fun mappingToPairs_loop :: "Node list \<Rightarrow> kvPair list \<Rightarrow> kvPair list option" where
  "mappingToPairs_loop [] out = Some out"
| "mappingToPairs_loop [k] out = None"
| "mappingToPairs_loop (k # v # rest) out =
     mappingToPairs_loop rest (out @ [\<lparr>kvKey = k, kvValue = v\<rparr>])"

definition mappingToPairs :: "Node \<Rightarrow> kvPair list option" where
  "mappingToPairs m = mappingToPairs_loop (Content m) []"

text \<open>
  \<^verbatim>\<open>extractMergePairs\<close>: an alias is followed, a mapping gives its pairs, a sequence the
  pairs of its items one after the other; anything else, an alias without a target
  among them, gives no pair.
\<close>

fun extractMergePairs :: "Node \<Rightarrow> kvPair list option" where
  "extractMergePairs (Node k tg v l c content al) =
     (case k of
        AliasNode \<Rightarrow> (case al of Some a \<Rightarrow> extractMergePairs a | None \<Rightarrow> Some [])
      | MappingNode \<Rightarrow> mappingToPairs_loop content []
      | SequenceNode \<Rightarrow>
          foldl (\<lambda>out item. case out of None \<Rightarrow> None
                                | Some ps \<Rightarrow> map_option ((@) ps) (extractMergePairs item))
            (Some []) content
      | _ \<Rightarrow> Some [])"

text \<open>
  \<^verbatim>\<open>dedupePairsKeepLast\<close>: the first loop stores for every key the index of its last
  pair, the second keeps the pairs that stand at the index stored for their key. A Go
  map gives 0 for a key it does not hold.
\<close>

fun dedupe_seen :: "kvPair list \<Rightarrow> nat \<Rightarrow> (string \<rightharpoonup> nat) \<Rightarrow> (string \<rightharpoonup> nat)" where
  "dedupe_seen [] idx seen = seen"
| "dedupe_seen (kv # rest) idx seen =
     dedupe_seen rest (Suc idx) (seen(Value (kvKey kv) \<mapsto> idx))"

fun dedupe_keep :: "kvPair list \<Rightarrow> nat \<Rightarrow> (string \<rightharpoonup> nat) \<Rightarrow> kvPair list \<Rightarrow> kvPair list" where
  "dedupe_keep [] idx seen out = out"
| "dedupe_keep (kv # rest) idx seen out =
     dedupe_keep rest (Suc idx) seen
       (if (case seen (Value (kvKey kv)) of None \<Rightarrow> 0 | Some i \<Rightarrow> i) = idx then out @ [kv] else out)"

definition dedupePairsKeepLast :: "kvPair list \<Rightarrow> kvPair list" where
  "dedupePairsKeepLast pairs = dedupe_keep pairs 0 (dedupe_seen pairs 0 Map.empty) []"

text \<open>
  \<^verbatim>\<open>expandMappingWithMerges\<close>: the loop over the children of the mapping, two by two,
  then the removal of the overridden pairs. On a node that is no mapping the result is
  the nil slice.
\<close>

fun expand_loop :: "Node list \<Rightarrow> kvPair list \<Rightarrow> kvPair list option" where
  "expand_loop [] pairs = Some pairs"
| "expand_loop [k] pairs = None"
| "expand_loop (k # v # rest) pairs =
     (if Value k = ''<<'' then
        (case extractMergePairs v of
           None \<Rightarrow> None
         | Some mergePairs \<Rightarrow> expand_loop rest (pairs @ mergePairs))
      else expand_loop rest (pairs @ [\<lparr>kvKey = k, kvValue = v\<rparr>]))"

definition expandMappingWithMerges :: "Node \<Rightarrow> kvPair list option" where
  "expandMappingWithMerges node =
     (if Kind node \<noteq> MappingNode then Some []
      else map_option dedupePairsKeepLast (expand_loop (Content node) []))"

section \<open>Unknown keys and the checks between fields (validator.go, lines 923-1116)\<close>

definition resolveUnknownKeyLevel :: "UnknownKeyPolicy \<Rightarrow> ValidationContext \<Rightarrow> ErrorLevel \<times> bool" where
  "resolveUnknownKeyLevel policy ctx =
     (case policy of
        UnknownKeyError \<Rightarrow> (LevelError, True)
      | UnknownKeyWarn \<Rightarrow> (LevelWarning, True)
      | UnknownKeyIgnore \<Rightarrow> (LevelWarning, False)
      | UnknownKeyInherit \<Rightarrow> if StrictKeys ctx then (LevelError, True) else (LevelWarning, True))"

type_synonym NodeMap = "string \<rightharpoonup> Node"

definition checkRequiredFields ::
  "Node \<Rightarrow> FieldSchema \<Rightarrow> string \<Rightarrow> NodeMap \<Rightarrow> ValidationContext \<Rightarrow> ValidationContext" where
  "checkRequiredFields node schema path foundKeys ctx =
     foldl (\<lambda>c (key, fieldSchema).
              if Required fieldSchema \<and> foundKeys key = None then
                AddError c \<lparr>Level = LevelError, Path = cleanPath (joinPath path key),
                  Line = NLine node, Column = NColumn node,
                  Message = ''required field '' @ Quote key @ '' is missing'',
                  Got = [], Expected = []\<rparr>
              else c)
       ctx (AllowedKeys schema)"

definition checkDefaults ::
  "Node \<Rightarrow> FieldSchema \<Rightarrow> string \<Rightarrow> NodeMap \<Rightarrow> ValidationContext \<Rightarrow> ValidationContext" where
  "checkDefaults node schema path foundKeys ctx =
     foldl (\<lambda>c (key, fieldSchema).
              case Default fieldSchema of
                None \<Rightarrow> c
              | Some d \<Rightarrow>
                  if foundKeys key = None \<and> \<not> Required fieldSchema then
                    AddError c \<lparr>Level = LevelWarning, Path = cleanPath (joinPath path key),
                      Line = NLine node, Column = NColumn node,
                      Message = ''field '' @ Quote key @ '' not set, will use default: '' @ d,
                      Got = [], Expected = []\<rparr>
                  else c)
       ctx (AllowedKeys schema)"

definition anyOfGroupStr :: "string list \<Rightarrow> string" where
  "anyOfGroupStr g =
     (if length g = 1 then Quote (hd g) else ''('' @ joinWith '' and '' (map Quote g) @ '')'')"

definition checkAnyOf ::
  "Node \<Rightarrow> FieldSchema \<Rightarrow> string \<Rightarrow> NodeMap \<Rightarrow> ValidationContext \<Rightarrow> ValidationContext" where
  "checkAnyOf node schema path foundKeys ctx =
     (if length (AnyOf schema) = 0 then ctx
      else if list_ex (\<lambda>group. list_all (\<lambda>key. foundKeys key \<noteq> None) group) (AnyOf schema) then ctx
      else AddError ctx \<lparr>Level = LevelError, Path = cleanPath path,
             Line = NLine node, Column = NColumn node,
             Message = ''at least one of '' @ joinWith '' or '' (map anyOfGroupStr (AnyOf schema))
                       @ '' is required'',
             Got = [], Expected = []\<rparr>)"

text \<open>
  \<^verbatim>\<open>checkExactlyOneOf\<close>. \<^verbatim>\<open>found\<close> are the listed keys that are present, in the
  order of the list. With two or more of them the position is read through
  \<^verbatim>\<open>keyNodes[found[1]]\<close>, a nil pointer when \<^verbatim>\<open>keyNodes\<close> lacks the key.
\<close>

definition checkExactlyOneOf ::
  "Node \<Rightarrow> FieldSchema \<Rightarrow> string \<Rightarrow> NodeMap \<Rightarrow> NodeMap \<Rightarrow> ValidationContext
     \<Rightarrow> ValidationContext option" where
  "checkExactlyOneOf node schema path foundKeys keyNodes ctx =
     (if length (ExactlyOneOf schema) = 0 then Some ctx
      else
        let found = filter (\<lambda>key. foundKeys key \<noteq> None) (ExactlyOneOf schema)
        in if length found = 0 then
             Some (AddError ctx \<lparr>Level = LevelError, Path = cleanPath path,
               Line = NLine node, Column = NColumn node,
               Message = ''exactly one of '' @ fmtStrings (ExactlyOneOf schema)
                         @ '' is required, none found'',
               Got = [], Expected = []\<rparr>)
           else if length found > 1 then
             (case keyNodes (found ! 1) of
                None \<Rightarrow> None
              | Some keyNode \<Rightarrow>
                  Some (AddError ctx \<lparr>Level = LevelError, Path = cleanPath path,
                    Line = NLine keyNode, Column = NColumn keyNode,
                    Message = ''exactly one of '' @ fmtStrings (ExactlyOneOf schema)
                              @ '' is required, found: '' @ fmtStrings found,
                    Got = [], Expected = []\<rparr>))
           else Some ctx)"

definition checkMutuallyExclusive ::
  "Node \<Rightarrow> FieldSchema \<Rightarrow> string \<Rightarrow> NodeMap \<Rightarrow> NodeMap \<Rightarrow> ValidationContext
     \<Rightarrow> ValidationContext option" where
  "checkMutuallyExclusive node schema path foundKeys keyNodes ctx =
     (if length (MutuallyExclusive schema) = 0 then Some ctx
      else
        let found = filter (\<lambda>key. foundKeys key \<noteq> None) (MutuallyExclusive schema)
        in if length found > 1 then
             (case keyNodes (found ! 1) of
                None \<Rightarrow> None
              | Some keyNode \<Rightarrow>
                  Some (AddError ctx \<lparr>Level = LevelError, Path = cleanPath path,
                    Line = NLine keyNode, Column = NColumn keyNode,
                    Message = ''fields '' @ fmtStrings found @ '' are mutually exclusive'',
                    Got = [], Expected = []\<rparr>))
           else Some ctx)"

definition checkCondition ::
  "string \<Rightarrow> NodeMap \<Rightarrow> NodeMap \<Rightarrow> ValidationContext \<Rightarrow> ConditionalRule \<Rightarrow> ValidationContext" where
  "checkCondition path foundKeys keyNodes ctx rule =
     (case foundKeys (ConditionField rule) of
        None \<Rightarrow> ctx
      | Some condNode \<Rightarrow>
          if Kind condNode \<noteq> ScalarNode then ctx
          else if Value condNode \<noteq> ConditionValue rule then ctx
          else
            let ctx1 = foldl (\<lambda>c reqKey.
                  if foundKeys reqKey = None then
                    AddError c \<lparr>Level = LevelError, Path = cleanPath (joinPath path reqKey),
                      Line = NLine condNode, Column = NColumn condNode,
                      Message = ''field '' @ Quote reqKey @ '' is required when ''
                                @ ConditionField rule @ ''='' @ Quote (ConditionValue rule),
                      Got = [], Expected = []\<rparr>
                  else c) ctx (ThenRequired rule)
            in foldl (\<lambda>c forbKey.
                  case keyNodes forbKey of
                    None \<Rightarrow> c
                  | Some keyNode \<Rightarrow>
                      AddError c \<lparr>Level = LevelError, Path = cleanPath (joinPath path forbKey),
                        Line = NLine keyNode, Column = NColumn keyNode,
                        Message = ''field '' @ Quote forbKey @ '' is forbidden when ''
                                  @ ConditionField rule @ ''='' @ Quote (ConditionValue rule),
                        Got = [], Expected = []\<rparr>) ctx1 (ThenForbidden rule))"

definition checkConditions ::
  "Node \<Rightarrow> FieldSchema \<Rightarrow> string \<Rightarrow> NodeMap \<Rightarrow> NodeMap \<Rightarrow> ValidationContext \<Rightarrow> ValidationContext" where
  "checkConditions node schema path foundKeys keyNodes ctx =
     foldl (checkCondition path foundKeys keyNodes) ctx (Conditions schema)"

section \<open>Node validation (validator.go, lines 520-578, 796-854, 1122-1160)\<close>

text \<open>The loop over the custom validators: it ends as soon as the context is stopped.\<close>

fun runValidators :: "ValueValidator list \<Rightarrow> Node \<Rightarrow> string \<Rightarrow> ValidationContext \<Rightarrow> ValidationContext" where
  "runValidators [] node path ctx = ctx"
| "runValidators (validator # rest) node path ctx =
     (if IsStopped ctx then ctx else runValidators rest node path (validator node path ctx))"

text \<open>The loop over the key validators, which has no test of the stopped flag.\<close>

definition runKeyValidators ::
  "KeyValidator list \<Rightarrow> string \<Rightarrow> Node \<Rightarrow> string \<Rightarrow> ValidationContext \<Rightarrow> ValidationContext" where
  "runKeyValidators kvs key keyNode path ctx = foldl (\<lambda>c kv. kv key keyNode path c) ctx kvs"

text \<open>The report of a key that is neither known nor covered by \<^verbatim>\<open>AdditionalProperties\<close>.\<close>

definition reportUnknownKey ::
  "FieldSchema \<Rightarrow> string \<Rightarrow> string \<Rightarrow> Node \<Rightarrow> Node \<Rightarrow> ValidationContext \<Rightarrow> ValidationContext" where
  "reportUnknownKey schema fieldPath key keyNode valueNode ctx =
     (let (level, report) = resolveUnknownKeyLevel (UnknownKeyPolicy schema) ctx
      in if report then
           AddError ctx \<lparr>Level = level, Path = cleanPath fieldPath,
             Line = NLine keyNode, Column = NColumn keyNode,
             Message = ''unknown key '' @ Quote key, Got = describeNode valueNode, Expected = []\<rparr>
         else ctx)"

text \<open>The two tests of the length of a sequence.\<close>

definition checkItemCounts :: "Node \<Rightarrow> FieldSchema \<Rightarrow> string \<Rightarrow> ValidationContext \<Rightarrow> ValidationContext" where
  "checkItemCounts node schema path ctx =
     (let len = int (length (Content node));
          ctx1 = (case MinItems schema of
                    None \<Rightarrow> ctx
                  | Some lo \<Rightarrow>
                      if len < lo then
                        AddError ctx \<lparr>Level = LevelError, Path = cleanPath path,
                          Line = NLine node, Column = NColumn node, Message = ''too few items'',
                          Got = Itoa len, Expected = ''at least '' @ Itoa lo\<rparr>
                      else ctx)
      in case MaxItems schema of
           None \<Rightarrow> ctx1
         | Some hi \<Rightarrow>
             if len > hi then
               AddError ctx1 \<lparr>Level = LevelError, Path = cleanPath path,
                 Line = NLine node, Column = NColumn node, Message = ''too many items'',
                 Got = Itoa len, Expected = ''at most '' @ Itoa hi\<rparr>
             else ctx1)"

text \<open>
  The checks that \<^verbatim>\<open>validateMapping\<close> runs after its loop, in their order; the two that
  read \<^verbatim>\<open>keyNodes\<close> can panic.
\<close>

definition checkFields ::
  "Node \<Rightarrow> FieldSchema \<Rightarrow> string \<Rightarrow> NodeMap \<Rightarrow> NodeMap \<Rightarrow> ValidationContext
     \<Rightarrow> ValidationContext option" where
  "checkFields node schema path foundKeys keyNodes ctx =
     (let ctx1 = checkRequiredFields node schema path foundKeys ctx;
          ctx2 = checkDefaults node schema path foundKeys ctx1;
          ctx3 = checkAnyOf node schema path foundKeys ctx2
      in case checkExactlyOneOf node schema path foundKeys keyNodes ctx3 of
           None \<Rightarrow> None
         | Some ctx4 \<Rightarrow>
             (case checkMutuallyExclusive node schema path foundKeys keyNodes ctx4 of
                None \<Rightarrow> None
              | Some ctx5 \<Rightarrow> Some (checkConditions node schema path foundKeys keyNodes ctx5)))"

text \<open>
  The loop of \<^verbatim>\<open>validateMapping\<close> either leaves through its \<^verbatim>\<open>return\<close>, when the
  context is stopped at the head of a round, or runs to its end with the two maps it
  has filled.
\<close>

datatype PairsResult =
  Returned ValidationContext
| Completed NodeMap NodeMap ValidationContext

lemma size_AllowedKeys:
  "map_of (AllowedKeys schema) key = Some fieldSchema \<Longrightarrow> size fieldSchema < size schema"
proof -
  assume "map_of (AllowedKeys schema) key = Some fieldSchema"
  then have "(key, fieldSchema) \<in> set (AllowedKeys schema)"
    by (rule map_of_SomeD)
  then have "size fieldSchema < Suc (size_list (size_prod (\<lambda>_. 0) size) (AllowedKeys schema))"
    by (induction "AllowedKeys schema" arbitrary: schema) (auto simp: less_Suc_eq_le intro: size_list_estimation')
  then show ?thesis by (cases schema) simp
qed

lemma size_AdditionalProperties:
  "AdditionalProperties schema = Some ap \<Longrightarrow> size ap < size schema"
  by (cases schema) simp

lemma size_ItemSchema:
  "ItemSchema schema = Some it \<Longrightarrow> size it < size schema"
  by (cases schema) simp

text \<open>
  \<^verbatim>\<open>validateNode\<close>, \<^verbatim>\<open>validateMapping\<close> with its loop over the expanded pairs, and
  \<^verbatim>\<open>validateSequence\<close> with its loop over the items. Every call from a loop goes to a
  schema below the current one, which is why the recursion ends.
\<close>

function validateNode :: "Node \<Rightarrow> FieldSchema option \<Rightarrow> string \<Rightarrow> ValidationContext \<Rightarrow> ValidationContext option"
  and validateMapping :: "Node \<Rightarrow> FieldSchema \<Rightarrow> string \<Rightarrow> ValidationContext \<Rightarrow> ValidationContext option"
  and validatePairs :: "kvPair list \<Rightarrow> FieldSchema \<Rightarrow> string \<Rightarrow> NodeMap \<Rightarrow> NodeMap \<Rightarrow> ValidationContext \<Rightarrow> PairsResult option"
  and validateSequence :: "Node \<Rightarrow> FieldSchema \<Rightarrow> string \<Rightarrow> ValidationContext \<Rightarrow> ValidationContext option"
  and validateItems :: "Node list \<Rightarrow> nat \<Rightarrow> FieldSchema \<Rightarrow> string \<Rightarrow> ValidationContext \<Rightarrow> ValidationContext option"
where
  "validateNode node0 None path ctx = Some ctx"
| "validateNode node0 (Some schema) path ctx =
     (if IsStopped ctx then Some ctx
      else
        (case (if Kind node0 = AliasNode then Alias node0 else Some node0) of
           None \<Rightarrow>
             Some (AddError ctx \<lparr>Level = LevelError, Path = cleanPath path,
               Line = NLine node0, Column = NColumn node0, Message = ''unresolved alias'',
               Got = [], Expected = []\<rparr>)
         | Some node \<Rightarrow>
             let ctx1 = (if Deprecated schema \<noteq> [] then
                           AddError ctx \<lparr>Level = LevelWarning, Path = cleanPath path,
                             Line = NLine node, Column = NColumn node,
                             Message = (if Deprecated schema = ''true''
                                        then ''this field is deprecated'' else Deprecated schema),
                             Got = [], Expected = []\<rparr>
                         else ctx);
                 checked = checkTypeWithSchema node schema path ctx1
             in if \<not> fst checked then Some (snd checked)
                else
                  (case (case Kind node of
                           MappingNode \<Rightarrow> validateMapping node schema path (snd checked)
                         | SequenceNode \<Rightarrow> validateSequence node schema path (snd checked)
                         | _ \<Rightarrow> Some (snd checked)) of
                     None \<Rightarrow> None
                   | Some ctx2 \<Rightarrow>
                       Some (runValidators (Validators schema) node (cleanPath path) ctx2))))"
| "validateMapping node schema path ctx =
     (case expandMappingWithMerges node of
        None \<Rightarrow> None
      | Some pairs \<Rightarrow>
          (case validatePairs pairs schema path Map.empty Map.empty ctx of
             None \<Rightarrow> None
           | Some (Returned ctx1) \<Rightarrow> Some ctx1
           | Some (Completed foundKeys keyNodes ctx1) \<Rightarrow>
               checkFields node schema path foundKeys keyNodes ctx1))"
| "validatePairs [] schema path foundKeys keyNodes ctx = Some (Completed foundKeys keyNodes ctx)"
| "validatePairs (kv # rest) schema path foundKeys0 keyNodes0 ctx =
     (if IsStopped ctx then Some (Returned ctx)
      else
        let keyNode = kvKey kv;
            valueNode = kvValue kv;
            key = Value keyNode;
            fieldPath = joinPath path key;
            foundKeys = foundKeys0(key \<mapsto> valueNode);
            keyNodes = keyNodes0(key \<mapsto> keyNode);
            ctx1 = runKeyValidators (KeyValidators schema) key keyNode (cleanPath fieldPath) ctx
        in case map_of (AllowedKeys schema) key of
             Some fieldSchema \<Rightarrow>
               (case validateNode valueNode (Some fieldSchema) fieldPath ctx1 of
                  None \<Rightarrow> None
                | Some ctx2 \<Rightarrow> validatePairs rest schema path foundKeys keyNodes ctx2)
           | None \<Rightarrow>
               (case AdditionalProperties schema of
                  Some ap \<Rightarrow>
                    (case validateNode valueNode (Some ap) fieldPath ctx1 of
                       None \<Rightarrow> None
                     | Some ctx2 \<Rightarrow> validatePairs rest schema path foundKeys keyNodes ctx2)
                | None \<Rightarrow>
                    validatePairs rest schema path foundKeys keyNodes
                      (reportUnknownKey schema fieldPath key keyNode valueNode ctx1)))"
| "validateSequence node schema path ctx =
     (let ctx1 = checkItemCounts node schema path ctx
      in if ItemSchema schema = None then Some ctx1
         else validateItems (Content node) 0 schema path ctx1)"
| "validateItems [] i schema path ctx = Some ctx"
| "validateItems (item # rest) i schema path ctx =
     (if IsStopped ctx then Some ctx
      else
        (case ItemSchema schema of
           None \<Rightarrow> Some ctx
         | Some itemSchema \<Rightarrow>
             (case validateNode item (Some itemSchema) (path @ ''['' @ Itoa (int i) @ '']'') ctx of
                None \<Rightarrow> None
              | Some ctx1 \<Rightarrow> validateItems rest (Suc i) schema path ctx1)))"
  by pat_completeness auto
termination
  by (relation "inv_image (less_than <*lex*> less_than <*lex*> less_than)
        (\<lambda>x. case x of
           Inl (Inl (n, so, p, c)) \<Rightarrow> ((case so of None \<Rightarrow> 0 | Some s \<Rightarrow> size s), 2::nat, 0::nat)
         | Inl (Inr (n, s, p, c)) \<Rightarrow> (size s, 1, 0)
         | Inr (Inl (ps, s, p, f, k, c)) \<Rightarrow> (size s, 0, length ps)
         | Inr (Inr (Inl (n, s, p, c))) \<Rightarrow> (size s, 1, 0)
         | Inr (Inr (Inr (ns, i, s, p, c))) \<Rightarrow> (size s, 0, length ns))")
     (auto simp: size_AllowedKeys size_AdditionalProperties size_ItemSchema)

declare validateNode.simps [simp del] validateMapping.simps [simp del] validatePairs.simps [simp del]
  validateSequence.simps [simp del] validateItems.simps [simp del]

section \<open>Documents (validator.go, lines 447-509, 1177-1218)\<close>

text \<open>
  \<^verbatim>\<open>parseYAMLError\<close> looks for \<^verbatim>\<open>line (\d+):\s*column (\d+)\<close> and, failing that, for
  \<^verbatim>\<open>line (\d+):\<close> in the message of the parser, at the leftmost place where the
  pattern matches. \<^verbatim>\<open>strconv.Atoi\<close> on a run of digits gives its number, or the
  largest 64-bit integer when the number is beyond it.
\<close>

definition isSpace :: "char \<Rightarrow> bool" where
  "isSpace c = (c = CHR 0x09 \<or> c = CHR 0x0A \<or> c = CHR 0x0C \<or> c = CHR 0x0D \<or> c = CHR '' '')"

definition Atoi_digits :: "string \<Rightarrow> int" where
  "Atoi_digits ds = min (foldl (\<lambda>n c. n * 10 + (byte c - 48)) 0 ds) (2 ^ 63 - 1)"

definition matchLine :: "string \<Rightarrow> (string \<times> string) option" where
  "matchLine s =
     (if \<not> HasPrefix s ''line '' then None
      else
        let ds = takeWhile isDigit (drop 5 s); r = dropWhile isDigit (drop 5 s)
        in if ds = [] \<or> r = [] \<or> hd r \<noteq> CHR '':'' then None else Some (ds, tl r))"

definition matchLineCol :: "string \<Rightarrow> (string \<times> string) option" where
  "matchLineCol s =
     (case matchLine s of
        None \<Rightarrow> None
      | Some (ds, r) \<Rightarrow>
          let r1 = dropWhile isSpace r
          in if \<not> HasPrefix r1 ''column '' then None
             else
               let cs = takeWhile isDigit (drop 7 r1)
               in if cs = [] then None else Some (ds, cs))"

fun findLineCol :: "string \<Rightarrow> (string \<times> string) option" where
  "findLineCol [] = None"
| "findLineCol (c # cs) =
     (case matchLineCol (c # cs) of Some m \<Rightarrow> Some m | None \<Rightarrow> findLineCol cs)"

fun findLine :: "string \<Rightarrow> string option" where
  "findLine [] = None"
| "findLine (c # cs) =
     (case matchLine (c # cs) of Some m \<Rightarrow> Some (fst m) | None \<Rightarrow> findLine cs)"

definition parseYAMLError :: "string \<Rightarrow> nat \<Rightarrow> ValidationError" where
  "parseYAMLError msg docIndex =
     (let (line, col) =
        (case findLineCol msg of
           Some (l, c) \<Rightarrow> (Atoi_digits l, Atoi_digits c)
         | None \<Rightarrow> (case findLine msg of Some l \<Rightarrow> (Atoi_digits l, 0) | None \<Rightarrow> (0, 0)))
      in \<lparr>Level = LevelError, Path = ''doc['' @ Itoa (int docIndex) @ '']'',
          Line = line, Column = col, Message = msg, Got = [], Expected = []\<rparr>)"

text \<open>
  The parser is outside the repository: what \<^verbatim>\<open>decoder.Decode\<close> returns call after
  call is given as a list, \<^verbatim>\<open>Inr\<close> a document root and \<^verbatim>\<open>Inl\<close> the message of an
  error; the end of the list is \<^verbatim>\<open>io.EOF\<close>.
\<close>

fun validateWithContext ::
  "FieldSchema option \<Rightarrow> (string + Node) list \<Rightarrow> nat \<Rightarrow> ValidationContext \<Rightarrow> ValidationContext option" where
  "validateWithContext schema [] docIndex ctx = Some ctx"
| "validateWithContext schema (Inl msg # rest) docIndex ctx =
     Some (AddError ctx (parseYAMLError msg docIndex))"
| "validateWithContext schema (Inr rootNode # rest) docIndex ctx =
     (case (if Kind rootNode = DocumentNode \<and> length (Content rootNode) > 0 then
              validateNode (hd (Content rootNode)) schema
                (if docIndex > 0 then ''doc['' @ Itoa (int docIndex) @ '']'' else []) ctx
            else Some ctx) of
        None \<Rightarrow> None
      | Some ctx1 \<Rightarrow>
          if IsStopped ctx1 then Some ctx1
          else validateWithContext schema rest (Suc docIndex) ctx1)"

text \<open>
  \<^verbatim>\<open>splitLines\<close> reads the data with a \<^verbatim>\<open>bufio.Scanner\<close>: lines end at a newline, one
  carriage return before it is dropped, a last line without newline counts when it is
  not empty, and the scan ends at a line that does not fit the 64 KiB buffer.
\<close>

definition dropCR :: "string \<Rightarrow> string" where
  "dropCR l = (if l \<noteq> [] \<and> last l = CHR 0x0D then butlast l else l)"

function splitLines :: "string \<Rightarrow> string list" where
  "splitLines data =
     (if data = [] then []
      else
        let l = takeWhile (\<lambda>c. c \<noteq> CHR 0x0A) data;
            r = dropWhile (\<lambda>c. c \<noteq> CHR 0x0A) data
        in if length l > 65535 then []
           else dropCR l # splitLines (drop 1 r))"
  by pat_completeness auto
termination
proof (relation "measure length")
  show "wf (measure length)" by simp
next
  fix data :: string and x xa
  assume "data \<noteq> []" and x: "x = takeWhile (\<lambda>c. c \<noteq> CHR 0x0A) data"
    and xa: "xa = dropWhile (\<lambda>c. c \<noteq> CHR 0x0A) data"
  have "length (drop 1 xa) < length data"
  proof (cases xa)
    case Nil
    then show ?thesis using \<open>data \<noteq> []\<close> by simp
  next
    case (Cons a list)
    have "length xa \<le> length data" unfolding xa by (rule length_dropWhile_le)
    then show ?thesis using Cons by simp
  qed
  then show "(drop 1 xa, data) \<in> measure length" by simp
qed

declare splitLines.simps [simp del]

record ValidationResult =
  Collector_r :: ErrorCollector
  SourceLines_r :: "string list"

record Validator =
  Validator_schema :: "FieldSchema option"

definition NewValidator :: "FieldSchema option \<Rightarrow> Validator" where
  "NewValidator s = \<lparr>Validator_schema = s\<rparr>"

text \<open>
  \<^verbatim>\<open>ValidateBytes\<close> and \<^verbatim>\<open>ValidateWithOptions\<close>, with the documents that the parser
  reads from the data as a further argument.
\<close>

definition ValidateBytes :: "Validator \<Rightarrow> string \<Rightarrow> (string + Node) list \<Rightarrow> ValidationResult option" where
  "ValidateBytes v data docs =
     (let ctx = NewValidationContext\<lparr>SourceLines := splitLines data\<rparr>
      in case validateWithContext (Validator_schema v) docs 0 ctx of
           None \<Rightarrow> None
         | Some ctx1 \<Rightarrow> Some \<lparr>Collector_r = Collector ctx1, SourceLines_r = SourceLines ctx1\<rparr>)"

definition ValidateWithOptions ::
  "Validator \<Rightarrow> string \<Rightarrow> ValidationContext \<Rightarrow> (string + Node) list \<Rightarrow> ValidationResult option" where
  "ValidateWithOptions v data opts docs =
     (let ctx = opts\<lparr>collector := NewErrorCollector, SourceLines := splitLines data\<rparr>
      in case validateWithContext (Validator_schema v) docs 0 ctx of
           None \<Rightarrow> None
         | Some ctx1 \<Rightarrow> Some \<lparr>Collector_r = Collector ctx1, SourceLines_r = SourceLines ctx1\<rparr>)"

section \<open>The range validator (pkg/valuevalidator/range.go)\<close>

record RangeValidator =
  Min_r :: "float64 option"
  Max_r :: "float64 option"

text \<open>\<^verbatim>\<open>parseYAMLNumber\<close>; \<^verbatim>\<open>None\<close> stands for the error "not a numeric value".\<close>

definition parseYAMLNumber :: "Node \<Rightarrow> float64 option" where
  "parseYAMLNumber node =
     (let val = Value node; lower = ToLower val
      in if lower = ''.inf'' \<or> lower = ''+.inf'' \<or> lower = ''-.inf'' then
           (if HasPrefix lower ''-'' then Some (F64Inf True) else Some (F64Inf False))
         else if lower = ''.nan'' then Some F64NaN
         else
           (case ParseFloat val of
              Some f \<Rightarrow> Some f
            | None \<Rightarrow>
                let neg = (\<not> HasPrefix val ''+'' \<and> HasPrefix val ''-'');
                    s = (if HasPrefix val ''+'' \<or> HasPrefix val ''-'' then drop 1 val else val);
                    signed = (\<lambda>i. if neg then f64_neg (float64_of_int i) else float64_of_int i)
                in case (if HasPrefix s ''0o'' \<or> HasPrefix s ''0O'' then ParseInt (drop 2 s) 8
                         else None) of
                     Some i \<Rightarrow> Some (signed i)
                   | None \<Rightarrow>
                       (case (if HasPrefix s ''0b'' \<or> HasPrefix s ''0B'' then ParseInt (drop 2 s) 2
                              else None) of
                          Some i \<Rightarrow> Some (signed i)
                        | None \<Rightarrow>
                            (case ParseInt s 0 of
                               Some i \<Rightarrow> Some (signed i)
                             | None \<Rightarrow> None))))"

text \<open>
  \<^verbatim>\<open>RangeValidator.Validate\<close>. The texts of \<^verbatim>\<open>Got\<close> and \<^verbatim>\<open>Expected\<close> are what
  \<^verbatim>\<open>%v\<close> prints for a \<^verbatim>\<open>float64\<close>; that rendering is the parameter \<^verbatim>\<open>fmtFloat\<close>.
\<close>

definition RangeValidator_Validate :: "(float64 \<Rightarrow> string) \<Rightarrow> RangeValidator \<Rightarrow> ValueValidator" where
  "RangeValidator_Validate fmtFloat vld node path ctx =
     (case parseYAMLNumber node of
        None \<Rightarrow>
          AddError ctx \<lparr>Level = LevelError, Path = path, Line = NLine node, Column = NColumn node,
            Message = ''expected numeric value'', Got = Value node, Expected = []\<rparr>
      | Some val \<Rightarrow>
          let ctx1 = (case Min_r vld of
                        None \<Rightarrow> ctx
                      | Some lo \<Rightarrow>
                          if f64_less val lo then
                            AddError ctx \<lparr>Level = LevelError, Path = path,
                              Line = NLine node, Column = NColumn node,
                              Message = ''value below minimum'', Got = fmtFloat val,
                              Expected = ''>= '' @ fmtFloat lo\<rparr>
                          else ctx)
          in case Max_r vld of
               None \<Rightarrow> ctx1
             | Some hi \<Rightarrow>
                 if f64_less hi val then
                   AddError ctx1 \<lparr>Level = LevelError, Path = path,
                     Line = NLine node, Column = NColumn node,
                     Message = ''value above maximum'', Got = fmtFloat val,
                     Expected = ''<= '' @ fmtFloat hi\<rparr>
                 else ctx1)"

section \<open>Error formatting (validator.go, lines 34-70, 1224-1320)\<close>

fun ErrorLevel_String :: "ErrorLevel \<Rightarrow> string" where
  "ErrorLevel_String LevelWarning = ''WARNING''"
| "ErrorLevel_String LevelError = ''ERROR''"

definition Error :: "ValidationError \<Rightarrow> string" where
  "Error e =
     (let details =
            (if Expected e \<noteq> [] \<and> Got e \<noteq> [] then
               '' (expected '' @ Expected e @ '', got '' @ Got e @ '')''
             else if Got e \<noteq> [] then '' (got '' @ Got e @ '')''
             else []);
          pos =
            (if Line e > 0 then
               (if Column e > 0 then ''line '' @ Itoa (Line e) @ '':'' @ Itoa (Column e) @ '': ''
                else ''line '' @ Itoa (Line e) @ '': '')
             else [])
      in ''['' @ ErrorLevel_String (Level e) @ ''] '' @ pos @ Message e @ details
         @ '' (path: '' @ Path e @ '')'')"

definition tabWidth :: int where
  "tabWidth = 4"

text \<open>
  The loop of \<^verbatim>\<open>renderLineWithCaret\<close>. \<^verbatim>\<open>rest\<close> is the line from \<^verbatim>\<open>bytePos\<close> on;
  \<^verbatim>\<open>sb\<close> is the text written so far.
\<close>

function renderLoop ::
  "string \<Rightarrow> int \<Rightarrow> int \<Rightarrow> string \<Rightarrow> int \<Rightarrow> bool \<Rightarrow> int \<Rightarrow> string \<times> int \<times> int \<times> bool" where
  "renderLoop rest byteCol bytePos sb visual caretSet visualCol =
     (if rest = [] then (sb, visualCol, visual, caretSet)
      else
        let hit = (\<not> caretSet \<and> byteCol > 0 \<and> byteCol - 1 \<le> bytePos);
            visualCol1 = (if hit then visual + 1 else visualCol);
            caretSet1 = (caretSet \<or> hit);
            r = fst (DecodeRuneInString rest);
            size = snd (DecodeRuneInString rest)
        in if r = 9 then
             renderLoop (drop size rest) byteCol (bytePos + int size)
               (sb @ replicate (nat (tabWidth - visual mod tabWidth)) CHR '' '')
               (visual + (tabWidth - visual mod tabWidth)) caretSet1 visualCol1
           else
             renderLoop (drop size rest) byteCol (bytePos + int size)
               (sb @ EncodeRune r) (visual + 1) caretSet1 visualCol1)"
  by pat_completeness auto
termination
  by (relation "measure (\<lambda>(rest, _). length rest)") (auto simp: DecodeRuneInString_width)

declare renderLoop.simps [simp del]

definition renderLineWithCaret :: "string \<Rightarrow> int \<Rightarrow> string \<times> int \<times> int" where
  "renderLineWithCaret line byteCol0 =
     (let byteCol = (if byteCol0 > int (length line) + 1 then int (length line) + 1 else byteCol0);
          (sb, visualCol, visual, caretSet) = renderLoop line byteCol 0 [] 0 False 0
      in (sb, (if \<not> caretSet \<and> byteCol > 0 then visual + 1 else visualCol), visual))"

definition RenderLineWithCaret :: "string \<Rightarrow> int \<Rightarrow> string \<times> int \<times> int" where
  "RenderLineWithCaret line byteCol = renderLineWithCaret line byteCol"

text \<open>The \<^verbatim>\<open>%4d\<close> of \<^verbatim>\<open>fmt.Sprintf\<close>: the number, with blanks before it up to four places.\<close>

definition fmt4d :: "int \<Rightarrow> string" where
  "fmt4d n = replicate (4 - length (Itoa n)) CHR '' '' @ Itoa n"

definition FormatErrorWithSource :: "ValidationError \<Rightarrow> string list \<Rightarrow> string" where
  "FormatErrorWithSource err lines =
     (let head = Error err @ [CHR 0x0A]
      in if Line err \<le> 0 \<or> Line err > int (length lines) then head
         else
           let lineIdx = nat (Line err - 1);
               before =
                 (if lineIdx > 0 then
                    ''  '' @ fmt4d (Line err - 1) @ '' | ''
                      @ fst (renderLineWithCaret (lines ! (lineIdx - 1)) 0) @ [CHR 0x0A]
                  else []);
               (currentRendered, visualCol0, renderedLen) =
                 renderLineWithCaret (lines ! lineIdx) (Column err);
               current = ''> '' @ fmt4d (Line err) @ '' | '' @ currentRendered @ [CHR 0x0A];
               caret =
                 (if visualCol0 > 0 then
                    (let visualCol = (if visualCol0 > renderedLen + 1 then renderedLen + 1
                                      else visualCol0)
                     in ''       | '' @ replicate (nat (visualCol - 1)) CHR '' '' @ ''^''
                          @ [CHR 0x0A])
                  else []);
               after =
                 (if lineIdx + 1 < length lines then
                    ''  '' @ fmt4d (Line err + 1) @ '' | ''
                      @ fst (renderLineWithCaret (lines ! (lineIdx + 1)) 0) @ [CHR 0x0A]
                  else [])
           in head @ before @ current @ caret @ after)"

section \<open>Example documents\<close>

text \<open>A scalar node, and the schema that only fixes the type.\<close>

definition scalarNode :: "string \<Rightarrow> string \<Rightarrow> int \<Rightarrow> int \<Rightarrow> Node" where
  "scalarNode tg v l c = Node ScalarNode tg v l c [] None"

definition schemaOfType :: "NodeType \<Rightarrow> FieldSchema" where
  "schemaOfType t =
     FieldSchema t False False [] [] None [] None UnknownKeyInherit [] None None None [] [] [] [] []"

text \<open>The document \<^verbatim>\<open>foo: 1\<close>.\<close>

definition ex_foo_map :: Node where
  "ex_foo_map = Node MappingNode ''!!map'' [] 1 1
     [scalarNode ''!!str'' ''foo'' 1 1, scalarNode ''!!int'' ''1'' 1 6] None"

text \<open>
  The document
  \<^verbatim>\<open>a: 1\<close>
  \<^verbatim>\<open>b: 2\<close>
  and a schema that wants exactly one of \<^verbatim>\<open>a\<close>, \<^verbatim>\<open>b\<close> and \<^verbatim>\<open>c\<close>.
\<close>

definition ex_ab_map :: Node where
  "ex_ab_map = Node MappingNode ''!!map'' [] 1 1
     [scalarNode ''!!str'' ''a'' 1 1, scalarNode ''!!int'' ''1'' 1 4,
      scalarNode ''!!str'' ''b'' 2 1, scalarNode ''!!int'' ''2'' 2 4] None"

definition ex_one_of_schema :: FieldSchema where
  "ex_one_of_schema =
     FieldSchema TypeMap False False [] [] None
       [(''a'', schemaOfType TypeInt), (''b'', schemaOfType TypeInt), (''c'', schemaOfType TypeInt)]
       None UnknownKeyInherit [] None None None [] [] [''c'', ''a'', ''b''] [] []"

text \<open>
  The document of the merge example:
  \<^verbatim>\<open>base: &ref {timeout: 30, host: "y"}\<close>
  \<^verbatim>\<open>svc: {<<: *ref, host: "x"}\<close>
  The node \<^verbatim>\<open>ex_merge_map\<close> is the value of \<^verbatim>\<open>svc\<close>.
\<close>

definition ex_ref_map :: Node where
  "ex_ref_map = Node MappingNode ''!!map'' [] 1 7
     [scalarNode ''!!str'' ''timeout'' 1 14, scalarNode ''!!int'' ''30'' 1 23,
      scalarNode ''!!str'' ''host'' 1 27, scalarNode ''!!str'' ''y'' 1 33] None"

definition ex_merge_map :: Node where
  "ex_merge_map = Node MappingNode ''!!map'' [] 2 6
     [scalarNode ''!!merge'' ''<<'' 2 7, Node AliasNode [] ''ref'' 2 11 [] (Some ex_ref_map),
      scalarNode ''!!str'' ''host'' 2 17, scalarNode ''!!str'' ''x'' 2 23] None"

text \<open>
  A map whose merge key has a plain scalar as its value, and one whose merge key has an
  alias without a target:
  \<^verbatim>\<open>{<<: oops, host: "x"}\<close> and \<^verbatim>\<open>{<<: *gone, host: "x"}\<close>;
  and the same map without the merge entry.
\<close>

definition ex_merge_scalar :: Node where
  "ex_merge_scalar = Node MappingNode ''!!map'' [] 1 1
     [scalarNode ''!!merge'' ''<<'' 1 2, scalarNode ''!!str'' ''oops'' 1 6,
      scalarNode ''!!str'' ''host'' 1 12, scalarNode ''!!str'' ''x'' 1 18] None"

definition ex_merge_unresolved :: Node where
  "ex_merge_unresolved = Node MappingNode ''!!map'' [] 1 1
     [scalarNode ''!!merge'' ''<<'' 1 2, Node AliasNode [] ''gone'' 1 6 [] None,
      scalarNode ''!!str'' ''host'' 1 12, scalarNode ''!!str'' ''x'' 1 18] None"

definition ex_host_schema :: FieldSchema where
  "ex_host_schema =
     FieldSchema TypeMap False False [] [] None [(''host'', schemaOfType TypeString)]
       None UnknownKeyError [] None None None [] [] [] [] []"

section \<open>Merge expansion as the specification words it\<close>

text \<open>
  A node is well formed when every mapping in it, below it or behind an alias of it has an
  even number of children, as every tree of the parser has.
\<close>

fun wellFormed :: "Node \<Rightarrow> bool" where
  "wellFormed (Node k tg v l c content al) =
     ((k \<noteq> MappingNode \<or> even (length content)) \<and> list_all wellFormed content \<and>
      (case al of None \<Rightarrow> True | Some a \<Rightarrow> wellFormed a))"

text \<open>The entries of a mapping: its children two by two.\<close>

fun spec_pairs :: "Node list \<Rightarrow> kvPair list" where
  "spec_pairs (k # v # rest) = \<lparr>kvKey = k, kvValue = v\<rparr> # spec_pairs rest"
| "spec_pairs _ = []"

text \<open>
  The pairs that the value of a merge key stands for: the pairs of the map it is or is
  an alias of, or, for a sequence, the pairs of its elements in order.
\<close>

fun spec_mergeValuePairs :: "Node \<Rightarrow> kvPair list" where
  "spec_mergeValuePairs (Node k tg v l c content al) =
     (case k of
        AliasNode \<Rightarrow> (case al of Some a \<Rightarrow> spec_mergeValuePairs a | None \<Rightarrow> [])
      | MappingNode \<Rightarrow> spec_pairs content
      | SequenceNode \<Rightarrow> concat (map spec_mergeValuePairs content)
      | _ \<Rightarrow> [])"

text \<open>An entry named \<^verbatim>\<open><<\<close> is replaced by the pairs of its value.\<close>

definition spec_entryPairs :: "kvPair \<Rightarrow> kvPair list" where
  "spec_entryPairs kv =
     (if Value (kvKey kv) = ''<<'' then spec_mergeValuePairs (kvValue kv) else [kv])"

text \<open>Of every key the last occurrence is kept: the pairs whose key does not come again.\<close>

definition spec_keepLast :: "kvPair list \<Rightarrow> kvPair list" where
  "spec_keepLast ps =
     map (\<lambda>i. ps ! i)
       (filter (\<lambda>i. Value (kvKey (ps ! i)) \<notin> set (map (\<lambda>q. Value (kvKey q)) (drop (Suc i) ps)))
          [0..<length ps])"

definition spec_expand :: "Node \<Rightarrow> kvPair list" where
  "spec_expand node = spec_keepLast (concat (map spec_entryPairs (spec_pairs (Content node))))"

section \<open>Stop on the first error\<close>

lemma AddError_stopped [simp]: "stopped ctx \<Longrightarrow> AddError ctx err = ctx"
  by (simp add: AddError_def)

lemma AddError_run_stopped: "stopped ctx \<Longrightarrow> foldl AddError ctx es = ctx"
  by (induction es) simp_all

lemma AddError_warning_running:
  "\<not> stopped ctx \<Longrightarrow> Level w \<noteq> LevelError \<Longrightarrow>
   AddError ctx w = ctx\<lparr>collector := (collector ctx)\<lparr>warnings := warnings (collector ctx) @ [w]\<rparr>\<rparr>"
  by (simp add: AddError_def Add_def Let_def)

lemma AddError_warnings_run:
  "\<not> stopped ctx \<Longrightarrow> \<forall>w \<in> set ws. Level w \<noteq> LevelError \<Longrightarrow>
   foldl AddError ctx ws =
     ctx\<lparr>collector := (collector ctx)\<lparr>warnings := warnings (collector ctx) @ ws\<rparr>\<rparr>"
proof (induction ws arbitrary: ctx)
  case Nil
  then show ?case by simp
next
  case (Cons w ws)
  have step: "AddError ctx w =
      ctx\<lparr>collector := (collector ctx)\<lparr>warnings := warnings (collector ctx) @ [w]\<rparr>\<rparr>"
    using Cons.prems by (simp add: AddError_warning_running)
  have "\<not> stopped (AddError ctx w)"
    using Cons.prems by (simp add: step)
  then have "foldl AddError (AddError ctx w) ws =
      (AddError ctx w)\<lparr>collector := (collector (AddError ctx w))
         \<lparr>warnings := warnings (collector (AddError ctx w)) @ ws\<rparr>\<rparr>"
    using Cons.IH Cons.prems by simp
  then show ?case by (simp add: step)
qed

text \<open>
  C8. In a run with \<^verbatim>\<open>StopOnFirst\<close> set, a warning added to a running context leaves it
  running and an error stops it at that very add; a stopped context stays stopped and
  equal to itself under any further sequence of \<^verbatim>\<open>AddError\<close> calls, of either level.
  For a whole run of adds from a running context: the diagnostics before the first error
  (all warnings) are recorded, then that error, and nothing after it.
\<close>

theorem AddError_stop_on_first:
  "StopOnFirst ctx \<longrightarrow>
     (\<not> stopped ctx \<longrightarrow> stopped (AddError ctx e) = (Level e = LevelError)) \<and>
     (stopped ctx \<longrightarrow> foldl AddError ctx es = ctx \<and> stopped (foldl AddError ctx es)) \<and>
     (\<not> stopped ctx \<and> (\<forall>w \<in> set ws. Level w = LevelWarning) \<and> Level e = LevelError \<longrightarrow>
        \<not> stopped (foldl AddError ctx ws) \<and>
        stopped (foldl AddError ctx (ws @ [e])) \<and>
        foldl AddError ctx (ws @ e # es) =
          ctx\<lparr>collector := \<lparr>errors = errors (collector ctx) @ [e],
                              warnings = warnings (collector ctx) @ ws\<rparr>,
              stopped := True\<rparr>)"
proof (intro impI conjI)
  assume "StopOnFirst ctx" "\<not> stopped ctx"
  then show "stopped (AddError ctx e) = (Level e = LevelError)"
    by (simp add: AddError_def Add_def Let_def)
next
  assume "stopped ctx"
  then show "foldl AddError ctx es = ctx" by (rule AddError_run_stopped)
next
  assume "stopped ctx"
  then show "stopped (foldl AddError ctx es)" by (simp add: AddError_run_stopped)
next
  assume sof: "StopOnFirst ctx"
    and h: "\<not> stopped ctx \<and> (\<forall>w \<in> set ws. Level w = LevelWarning) \<and> Level e = LevelError"
  then have ws: "\<forall>w \<in> set ws. Level w \<noteq> LevelError" by simp
  let ?c = "ctx\<lparr>collector := (collector ctx)\<lparr>warnings := warnings (collector ctx) @ ws\<rparr>\<rparr>"
  have run: "foldl AddError ctx ws = ?c"
    using h ws by (simp add: AddError_warnings_run)
  show "\<not> stopped (foldl AddError ctx ws)"
    using h by (simp add: run)
  have stop: "AddError ?c e =
      ctx\<lparr>collector := \<lparr>errors = errors (collector ctx) @ [e],
                          warnings = warnings (collector ctx) @ ws\<rparr>,
          stopped := True\<rparr>"
    using sof h by (simp add: AddError_def Add_def Let_def)
  show "stopped (foldl AddError ctx (ws @ [e]))"
    by (simp add: run stop)
  show "foldl AddError ctx (ws @ e # es) =
      ctx\<lparr>collector := \<lparr>errors = errors (collector ctx) @ [e],
                          warnings = warnings (collector ctx) @ ws\<rparr>,
          stopped := True\<rparr>"
    by (simp add: run stop AddError_run_stopped)
qed

theorem AddError_stop_on_first_witness:
  "StopOnFirst (NewValidationContext\<lparr>StopOnFirst := True\<rparr>) \<and>
   \<not> stopped (NewValidationContext\<lparr>StopOnFirst := True\<rparr>) \<and>
   stopped (AddError (NewValidationContext\<lparr>StopOnFirst := True\<rparr>)
     \<lparr>Level = LevelError, Path = ''a'', Line = 2, Column = 1, Message = ''e'', Got = [], Expected = []\<rparr>) \<and>
   \<not> stopped (AddError (NewValidationContext\<lparr>StopOnFirst := True\<rparr>)
     \<lparr>Level = LevelWarning, Path = ''a'', Line = 1, Column = 1, Message = ''w'', Got = [], Expected = []\<rparr>) \<and>
   foldl AddError (NewValidationContext\<lparr>StopOnFirst := True\<rparr>)
     ([\<lparr>Level = LevelWarning, Path = ''a'', Line = 1, Column = 1, Message = ''w'', Got = [], Expected = []\<rparr>] @
      \<lparr>Level = LevelError, Path = ''a'', Line = 2, Column = 1, Message = ''e'', Got = [], Expected = []\<rparr> #
      [\<lparr>Level = LevelError, Path = ''b'', Line = 3, Column = 1, Message = ''f'', Got = [], Expected = []\<rparr>,
       \<lparr>Level = LevelWarning, Path = ''b'', Line = 4, Column = 1, Message = ''x'', Got = [], Expected = []\<rparr>]) =
     NewValidationContext\<lparr>StopOnFirst := True,
       collector := \<lparr>errors = [\<lparr>Level = LevelError, Path = ''a'', Line = 2, Column = 1, Message = ''e'', Got = [], Expected = []\<rparr>],
                      warnings = [\<lparr>Level = LevelWarning, Path = ''a'', Line = 1, Column = 1, Message = ''w'', Got = [], Expected = []\<rparr>]\<rparr>,
       stopped := True\<rparr> \<and>
   stopped (NewValidationContext\<lparr>StopOnFirst := True, stopped := True\<rparr>) \<and>
   foldl AddError (NewValidationContext\<lparr>StopOnFirst := True, stopped := True\<rparr>)
     [\<lparr>Level = LevelError, Path = ''b'', Line = 3, Column = 1, Message = ''f'', Got = [], Expected = []\<rparr>] =
     NewValidationContext\<lparr>StopOnFirst := True, stopped := True\<rparr>"
  using AddError_stop_on_first
      [of "NewValidationContext\<lparr>StopOnFirst := True\<rparr>"
          "\<lparr>Level = LevelError, Path = ''a'', Line = 2, Column = 1, Message = ''e'', Got = [], Expected = []\<rparr>"
          "[\<lparr>Level = LevelError, Path = ''b'', Line = 3, Column = 1, Message = ''f'', Got = [], Expected = []\<rparr>,
            \<lparr>Level = LevelWarning, Path = ''b'', Line = 4, Column = 1, Message = ''x'', Got = [], Expected = []\<rparr>]"
          "[\<lparr>Level = LevelWarning, Path = ''a'', Line = 1, Column = 1, Message = ''w'', Got = [], Expected = []\<rparr>]"]
    AddError_stop_on_first
      [of "NewValidationContext\<lparr>StopOnFirst := True\<rparr>"
          "\<lparr>Level = LevelWarning, Path = ''a'', Line = 1, Column = 1, Message = ''w'', Got = [], Expected = []\<rparr>"
          "[]" "[]"]
    AddError_stop_on_first
      [of "NewValidationContext\<lparr>StopOnFirst := True, stopped := True\<rparr>"
          "\<lparr>Level = LevelError, Path = ''b'', Line = 3, Column = 1, Message = ''f'', Got = [], Expected = []\<rparr>"
          "[\<lparr>Level = LevelError, Path = ''b'', Line = 3, Column = 1, Message = ''f'', Got = [], Expected = []\<rparr>]"
          "[]"]
  by (simp add: NewValidationContext_def NewErrorCollector_def AddError_def Add_def)

section \<open>The type check\<close>

lemma checkTypeWithSchema_cases:
  "checkTypeWithSchema node schema path ctx =
     (if Type schema = TypeAny \<or> inferType node ctx = Type schema \<or>
         (inferType node ctx = TypeNull \<and> (Type schema = TypeNull \<or> Nullable schema)) \<or>
         (Type schema = TypeFloat \<and> inferType node ctx = TypeInt)
      then (True, ctx)
      else (False, AddError ctx
        \<lparr>Level = LevelError, Path = cleanPath path, Line = NLine node, Column = NColumn node,
         Message = (if inferType node ctx = TypeNull then ''unexpected null value'' else ''type mismatch''),
         Got = (if inferType node ctx = TypeNull then ''null'' else describeNode node),
         Expected = NodeType_String (Type schema)\<rparr>))"
  unfolding checkTypeWithSchema_def Let_def
  by (cases "Type schema = TypeAny"; cases "inferType node ctx = TypeNull"; simp; blast?)

lemma AddError_running_error:
  "\<not> stopped ctx \<Longrightarrow> Level e = LevelError \<Longrightarrow>
   errors (collector (AddError ctx e)) = errors (collector ctx) @ [e] \<and>
   warnings (collector (AddError ctx e)) = warnings (collector ctx)"
  by (simp add: AddError_def Add_def Let_def)

lemma AddError_running_warning:
  "\<not> stopped ctx \<Longrightarrow> Level e = LevelWarning \<Longrightarrow>
   errors (collector (AddError ctx e)) = errors (collector ctx) \<and>
   warnings (collector (AddError ctx e)) = warnings (collector ctx) @ [e] \<and>
   \<not> stopped (AddError ctx e)"
  by (simp add: AddError_def Add_def Let_def)

text \<open>
  C2. The type check passes exactly when the schema type is Any, or the inferred type
  equals the expected one, or the inferred type is Null and the schema type is Null or
  the schema is nullable, or the expected type is Float and the inferred one Int. A
  check that passes leaves the context as it was. A Null that is not accepted is
  reported by one \<^verbatim>\<open>AddError\<close> of the error "unexpected null value", every other
  mismatch (a Float against an Int schema among them) by one \<^verbatim>\<open>AddError\<close> of the
  error "type mismatch"; on a running context that add appends exactly this error to
  the errors and leaves the warnings alone.
\<close>

theorem checkTypeWithSchema_passes_iff:
  "(fst (checkTypeWithSchema node schema path ctx) \<longleftrightarrow>
      Type schema = TypeAny \<or> inferType node ctx = Type schema \<or>
      (inferType node ctx = TypeNull \<and> (Type schema = TypeNull \<or> Nullable schema)) \<or>
      (Type schema = TypeFloat \<and> inferType node ctx = TypeInt)) \<and>
   (fst (checkTypeWithSchema node schema path ctx) \<longrightarrow>
      snd (checkTypeWithSchema node schema path ctx) = ctx) \<and>
   (\<not> fst (checkTypeWithSchema node schema path ctx) \<and> inferType node ctx = TypeNull \<longrightarrow>
      snd (checkTypeWithSchema node schema path ctx) = AddError ctx
        \<lparr>Level = LevelError, Path = cleanPath path, Line = NLine node, Column = NColumn node,
         Message = ''unexpected null value'', Got = ''null'',
         Expected = NodeType_String (Type schema)\<rparr>) \<and>
   (\<not> fst (checkTypeWithSchema node schema path ctx) \<and> inferType node ctx \<noteq> TypeNull \<longrightarrow>
      snd (checkTypeWithSchema node schema path ctx) = AddError ctx
        \<lparr>Level = LevelError, Path = cleanPath path, Line = NLine node, Column = NColumn node,
         Message = ''type mismatch'', Got = describeNode node,
         Expected = NodeType_String (Type schema)\<rparr>) \<and>
   (Type schema = TypeInt \<and> inferType node ctx = TypeFloat \<longrightarrow>
      \<not> fst (checkTypeWithSchema node schema path ctx)) \<and>
   (\<not> fst (checkTypeWithSchema node schema path ctx) \<and> \<not> stopped ctx \<longrightarrow>
      (\<exists>e. errors (collector (snd (checkTypeWithSchema node schema path ctx))) =
             errors (collector ctx) @ [e] \<and>
           Level e = LevelError \<and>
           Message e = (if inferType node ctx = TypeNull then ''unexpected null value''
                        else ''type mismatch'')) \<and>
      warnings (collector (snd (checkTypeWithSchema node schema path ctx))) =
        warnings (collector ctx))"
proof (intro conjI impI)
  show "fst (checkTypeWithSchema node schema path ctx) \<longleftrightarrow>
      Type schema = TypeAny \<or> inferType node ctx = Type schema \<or>
      (inferType node ctx = TypeNull \<and> (Type schema = TypeNull \<or> Nullable schema)) \<or>
      (Type schema = TypeFloat \<and> inferType node ctx = TypeInt)"
    by (simp add: checkTypeWithSchema_cases)
next
  assume "fst (checkTypeWithSchema node schema path ctx)"
  then show "snd (checkTypeWithSchema node schema path ctx) = ctx"
    by (auto simp: checkTypeWithSchema_cases split: if_splits)
next
  assume "\<not> fst (checkTypeWithSchema node schema path ctx) \<and> inferType node ctx = TypeNull"
  then show "snd (checkTypeWithSchema node schema path ctx) = AddError ctx
        \<lparr>Level = LevelError, Path = cleanPath path, Line = NLine node, Column = NColumn node,
         Message = ''unexpected null value'', Got = ''null'',
         Expected = NodeType_String (Type schema)\<rparr>"
    by (auto simp: checkTypeWithSchema_cases split: if_splits)
next
  assume "\<not> fst (checkTypeWithSchema node schema path ctx) \<and> inferType node ctx \<noteq> TypeNull"
  then show "snd (checkTypeWithSchema node schema path ctx) = AddError ctx
        \<lparr>Level = LevelError, Path = cleanPath path, Line = NLine node, Column = NColumn node,
         Message = ''type mismatch'', Got = describeNode node,
         Expected = NodeType_String (Type schema)\<rparr>"
    by (auto simp: checkTypeWithSchema_cases split: if_splits)
next
  assume "Type schema = TypeInt \<and> inferType node ctx = TypeFloat"
  then show "\<not> fst (checkTypeWithSchema node schema path ctx)"
    by (simp add: checkTypeWithSchema_cases)
next
  assume h: "\<not> fst (checkTypeWithSchema node schema path ctx) \<and> \<not> stopped ctx"
  let ?e = "\<lparr>Level = LevelError, Path = cleanPath path, Line = NLine node, Column = NColumn node,
         Message = (if inferType node ctx = TypeNull then ''unexpected null value'' else ''type mismatch''),
         Got = (if inferType node ctx = TypeNull then ''null'' else describeNode node),
         Expected = NodeType_String (Type schema)\<rparr>"
  from h have s: "snd (checkTypeWithSchema node schema path ctx) = AddError ctx ?e"
    by (auto simp: checkTypeWithSchema_cases split: if_splits)
  have a: "errors (collector (AddError ctx ?e)) = errors (collector ctx) @ [?e] \<and>
           warnings (collector (AddError ctx ?e)) = warnings (collector ctx)"
    using h by (intro AddError_running_error) simp_all
  show "\<exists>e. errors (collector (snd (checkTypeWithSchema node schema path ctx))) =
             errors (collector ctx) @ [e] \<and>
           Level e = LevelError \<and>
           Message e = (if inferType node ctx = TypeNull then ''unexpected null value''
                        else ''type mismatch'')"
    unfolding s using a by (intro exI[of _ ?e]) simp
  show "warnings (collector (snd (checkTypeWithSchema node schema path ctx))) =
        warnings (collector ctx)"
    unfolding s using a by simp
qed

theorem checkTypeWithSchema_passes_iff_witness:
  "\<not> fst (checkTypeWithSchema (Node ScalarNode ''!!null'' ''~'' 3 7 [] None)
       (FieldSchema TypeString False False [] [] None [] None UnknownKeyInherit [] None None None
          [] [] [] [] [])
       ''a.b'' NewValidationContext) \<and>
   errors (collector (snd (checkTypeWithSchema (Node ScalarNode ''!!null'' ''~'' 3 7 [] None)
       (FieldSchema TypeString False False [] [] None [] None UnknownKeyInherit [] None None None
          [] [] [] [] [])
       ''a.b'' NewValidationContext))) =
     [\<lparr>Level = LevelError, Path = ''a.b'', Line = 3, Column = 7,
       Message = ''unexpected null value'', Got = ''null'', Expected = ''string''\<rparr>] \<and>
   fst (checkTypeWithSchema (Node ScalarNode ''!!int'' ''7'' 1 1 [] None)
       (FieldSchema TypeFloat False False [] [] None [] None UnknownKeyInherit [] None None None
          [] [] [] [] [])
       ''x'' NewValidationContext) \<and>
   snd (checkTypeWithSchema (Node ScalarNode ''!!int'' ''7'' 1 1 [] None)
       (FieldSchema TypeFloat False False [] [] None [] None UnknownKeyInherit [] None None None
          [] [] [] [] [])
       ''x'' NewValidationContext) = NewValidationContext \<and>
   \<not> fst (checkTypeWithSchema (Node ScalarNode ''!!float'' ''7.5'' 2 4 [] None)
       (FieldSchema TypeInt False False [] [] None [] None UnknownKeyInherit [] None None None
          [] [] [] [] [])
       ''x'' NewValidationContext) \<and>
   snd (checkTypeWithSchema (Node ScalarNode ''!!float'' ''7.5'' 2 4 [] None)
       (FieldSchema TypeInt False False [] [] None [] None UnknownKeyInherit [] None None None
          [] [] [] [] [])
       ''x'' NewValidationContext) = AddError NewValidationContext
     \<lparr>Level = LevelError, Path = ''x'', Line = 2, Column = 4,
      Message = ''type mismatch'',
      Got = describeNode (Node ScalarNode ''!!float'' ''7.5'' 2 4 [] None),
      Expected = ''integer''\<rparr>"
  using checkTypeWithSchema_passes_iff
      [of "Node ScalarNode ''!!null'' ''~'' 3 7 [] None"
          "FieldSchema TypeString False False [] [] None [] None UnknownKeyInherit [] None None None
             [] [] [] [] []"
          "''a.b''" NewValidationContext]
    checkTypeWithSchema_passes_iff
      [of "Node ScalarNode ''!!int'' ''7'' 1 1 [] None"
          "FieldSchema TypeFloat False False [] [] None [] None UnknownKeyInherit [] None None None
             [] [] [] [] []"
          "''x''" NewValidationContext]
    checkTypeWithSchema_passes_iff
      [of "Node ScalarNode ''!!float'' ''7.5'' 2 4 [] None"
          "FieldSchema TypeInt False False [] [] None [] None UnknownKeyInherit [] None None None
             [] [] [] [] []"
          "''x''" NewValidationContext]
  by (simp add: checkTypeWithSchema_cases inferScalarType_def NewValidationContext_def
      NewErrorCollector_def cleanPath_def TrimPrefix_def HasPrefix_def AddError_def Add_def)

section \<open>A nil schema\<close>

lemma validateWithContext_nil:
  "validateWithContext None (map Inr docs) docIndex ctx = Some ctx"
  by (induction docs arbitrary: docIndex) (simp_all add: validateNode.simps)

text \<open>
  C9. Against a nil schema \<^verbatim>\<open>validateNode\<close> returns at once: it does not panic and
  leaves the context as it found it, whatever the node. Hence a validator built on a nil
  schema, run over documents that all parse, leaves the context unchanged too, and
  \<^verbatim>\<open>ValidateBytes\<close> returns a result without errors and without warnings.
\<close>

theorem validateNode_nil_schema:
  "validateNode node None path ctx = Some ctx \<and>
   validateWithContext None (map Inr docs) docIndex ctx = Some ctx \<and>
   ValidateBytes (NewValidator None) data (map Inr docs) =
     Some \<lparr>Collector_r = \<lparr>errors = [], warnings = []\<rparr>, SourceLines_r = splitLines data\<rparr> \<and>
   (\<exists>r. ValidateBytes (NewValidator None) data (map Inr docs) = Some r \<and>
        \<not> HasErrors (Collector_r r) \<and> All (Collector_r r) = [])"
  by (simp add: validateNode.simps validateWithContext_nil ValidateBytes_def NewValidator_def
      NewValidationContext_def NewErrorCollector_def Collector_def HasErrors_def All_def)

section \<open>Unknown keys\<close>

lemma validatePairs_unknown:
  "\<not> stopped ctx \<Longrightarrow> map_of (AllowedKeys schema) (Value (kvKey kv)) = None \<Longrightarrow>
   AdditionalProperties schema = None \<Longrightarrow>
   validatePairs (kv # rest) schema path foundKeys keyNodes ctx =
     validatePairs rest schema path
       (foundKeys(Value (kvKey kv) \<mapsto> kvValue kv)) (keyNodes(Value (kvKey kv) \<mapsto> kvKey kv))
       (reportUnknownKey schema (joinPath path (Value (kvKey kv))) (Value (kvKey kv))
          (kvKey kv) (kvValue kv)
          (runKeyValidators (KeyValidators schema) (Value (kvKey kv)) (kvKey kv)
             (cleanPath (joinPath path (Value (kvKey kv)))) ctx))"
  by (simp add: validatePairs.simps IsStopped_def Let_def)

lemma reportUnknownKey_cases:
  "reportUnknownKey schema fieldPath key keyNode valueNode ctx =
     (if UnknownKeyPolicy schema = UnknownKeyIgnore then ctx
      else AddError ctx
        \<lparr>Level = (if UnknownKeyPolicy schema = UnknownKeyError \<or>
                     (UnknownKeyPolicy schema = UnknownKeyInherit \<and> StrictKeys ctx)
                  then LevelError else LevelWarning),
         Path = cleanPath fieldPath, Line = NLine keyNode, Column = NColumn keyNode,
         Message = ''unknown key '' @ Quote key, Got = describeNode valueNode, Expected = []\<rparr>)"
  by (cases "UnknownKeyPolicy schema")
     (simp_all add: reportUnknownKey_def resolveUnknownKeyLevel_def)

text \<open>
  C7. A key that is not among the known keys of a schema without
  \<^verbatim>\<open>AdditionalProperties\<close> is handled by the policy alone. The loop of
  \<^verbatim>\<open>validateMapping\<close> runs the key validators, then goes on with a context \<^verbatim>\<open>ctx2\<close>
  that differs from the one the key validators left (\<^verbatim>\<open>ctxK\<close>, when it is running) as
  follows: under Inherit one warning and no error when \<^verbatim>\<open>StrictKeys\<close> is false, one
  error and no warning when it is true; under Error one error, under Warn one warning,
  under Ignore nothing. The diagnostic is the one for this key, at the key's position.
\<close>

theorem unknown_key_policy:
  "map_of (AllowedKeys schema) (Value (kvKey kv)) = None \<and> AdditionalProperties schema = None \<and>
   \<not> stopped ctx \<and>
   ctxK = runKeyValidators (KeyValidators schema) (Value (kvKey kv)) (kvKey kv)
            (cleanPath (joinPath path (Value (kvKey kv)))) ctx \<and>
   \<not> stopped ctxK \<and>
   d = (\<lambda>level. \<lparr>Level = level, Path = cleanPath (joinPath path (Value (kvKey kv))),
          Line = NLine (kvKey kv), Column = NColumn (kvKey kv),
          Message = ''unknown key '' @ Quote (Value (kvKey kv)),
          Got = describeNode (kvValue kv), Expected = []\<rparr>)
   \<longrightarrow>
   resolveUnknownKeyLevel UnknownKeyError ctxK = (LevelError, True) \<and>
   resolveUnknownKeyLevel UnknownKeyWarn ctxK = (LevelWarning, True) \<and>
   snd (resolveUnknownKeyLevel UnknownKeyIgnore ctxK) = False \<and>
   resolveUnknownKeyLevel UnknownKeyInherit ctxK =
     (if StrictKeys ctxK then LevelError else LevelWarning, True) \<and>
   (\<exists>ctx2.
      validatePairs (kv # rest) schema path foundKeys keyNodes ctx =
        validatePairs rest schema path
          (foundKeys(Value (kvKey kv) \<mapsto> kvValue kv)) (keyNodes(Value (kvKey kv) \<mapsto> kvKey kv))
          ctx2 \<and>
      (case UnknownKeyPolicy schema of
         UnknownKeyInherit \<Rightarrow>
           if StrictKeys ctxK then
             errors (collector ctx2) = errors (collector ctxK) @ [d LevelError] \<and>
             warnings (collector ctx2) = warnings (collector ctxK)
           else
             errors (collector ctx2) = errors (collector ctxK) \<and>
             warnings (collector ctx2) = warnings (collector ctxK) @ [d LevelWarning]
       | UnknownKeyError \<Rightarrow>
           errors (collector ctx2) = errors (collector ctxK) @ [d LevelError] \<and>
           warnings (collector ctx2) = warnings (collector ctxK)
       | UnknownKeyWarn \<Rightarrow>
           errors (collector ctx2) = errors (collector ctxK) \<and>
           warnings (collector ctx2) = warnings (collector ctxK) @ [d LevelWarning]
       | UnknownKeyIgnore \<Rightarrow> ctx2 = ctxK))"
proof (intro impI, elim conjE, intro conjI)
  assume unknown: "map_of (AllowedKeys schema) (Value (kvKey kv)) = None"
    and noap: "AdditionalProperties schema = None"
    and run: "\<not> stopped ctx"
    and c1: "ctxK = runKeyValidators (KeyValidators schema) (Value (kvKey kv)) (kvKey kv)
            (cleanPath (joinPath path (Value (kvKey kv)))) ctx"
    and run1: "\<not> stopped ctxK"
    and d: "d = (\<lambda>level. \<lparr>Level = level, Path = cleanPath (joinPath path (Value (kvKey kv))),
          Line = NLine (kvKey kv), Column = NColumn (kvKey kv),
          Message = ''unknown key '' @ Quote (Value (kvKey kv)),
          Got = describeNode (kvValue kv), Expected = []\<rparr>)"
  show "resolveUnknownKeyLevel UnknownKeyError ctxK = (LevelError, True)"
    by (simp add: resolveUnknownKeyLevel_def)
  show "resolveUnknownKeyLevel UnknownKeyWarn ctxK = (LevelWarning, True)"
    by (simp add: resolveUnknownKeyLevel_def)
  show "snd (resolveUnknownKeyLevel UnknownKeyIgnore ctxK) = False"
    by (simp add: resolveUnknownKeyLevel_def)
  show "resolveUnknownKeyLevel UnknownKeyInherit ctxK =
     (if StrictKeys ctxK then LevelError else LevelWarning, True)"
    by (simp add: resolveUnknownKeyLevel_def)
  let ?ctx2 = "reportUnknownKey schema (joinPath path (Value (kvKey kv))) (Value (kvKey kv))
          (kvKey kv) (kvValue kv) ctxK"
  have step: "validatePairs (kv # rest) schema path foundKeys keyNodes ctx =
        validatePairs rest schema path
          (foundKeys(Value (kvKey kv) \<mapsto> kvValue kv)) (keyNodes(Value (kvKey kv) \<mapsto> kvKey kv))
          ?ctx2"
    unfolding c1 using run unknown noap by (rule validatePairs_unknown)
  have eff: "case UnknownKeyPolicy schema of
         UnknownKeyInherit \<Rightarrow>
           if StrictKeys ctxK then
             errors (collector ?ctx2) = errors (collector ctxK) @ [d LevelError] \<and>
             warnings (collector ?ctx2) = warnings (collector ctxK)
           else
             errors (collector ?ctx2) = errors (collector ctxK) \<and>
             warnings (collector ?ctx2) = warnings (collector ctxK) @ [d LevelWarning]
       | UnknownKeyError \<Rightarrow>
           errors (collector ?ctx2) = errors (collector ctxK) @ [d LevelError] \<and>
           warnings (collector ?ctx2) = warnings (collector ctxK)
       | UnknownKeyWarn \<Rightarrow>
           errors (collector ?ctx2) = errors (collector ctxK) \<and>
           warnings (collector ?ctx2) = warnings (collector ctxK) @ [d LevelWarning]
       | UnknownKeyIgnore \<Rightarrow> ?ctx2 = ctxK"
    using run1
    by (cases "UnknownKeyPolicy schema")
       (simp_all add: reportUnknownKey_cases d AddError_def Add_def Let_def)
  show "\<exists>ctx2.
      validatePairs (kv # rest) schema path foundKeys keyNodes ctx =
        validatePairs rest schema path
          (foundKeys(Value (kvKey kv) \<mapsto> kvValue kv)) (keyNodes(Value (kvKey kv) \<mapsto> kvKey kv))
          ctx2 \<and>
      (case UnknownKeyPolicy schema of
         UnknownKeyInherit \<Rightarrow>
           if StrictKeys ctxK then
             errors (collector ctx2) = errors (collector ctxK) @ [d LevelError] \<and>
             warnings (collector ctx2) = warnings (collector ctxK)
           else
             errors (collector ctx2) = errors (collector ctxK) \<and>
             warnings (collector ctx2) = warnings (collector ctxK) @ [d LevelWarning]
       | UnknownKeyError \<Rightarrow>
           errors (collector ctx2) = errors (collector ctxK) @ [d LevelError] \<and>
           warnings (collector ctx2) = warnings (collector ctxK)
       | UnknownKeyWarn \<Rightarrow>
           errors (collector ctx2) = errors (collector ctxK) \<and>
           warnings (collector ctx2) = warnings (collector ctxK) @ [d LevelWarning]
       | UnknownKeyIgnore \<Rightarrow> ctx2 = ctxK)"
    using step eff by blast
qed

theorem unknown_key_policy_witness:
  "map_of (AllowedKeys (schemaOfType TypeMap)) ''foo'' = None \<and>
   AdditionalProperties (schemaOfType TypeMap) = None \<and>
   \<not> stopped NewValidationContext \<and>
   (\<exists>ctx2.
      validatePairs
        [\<lparr>kvKey = scalarNode ''!!str'' ''foo'' 1 1, kvValue = scalarNode ''!!int'' ''1'' 1 6\<rparr>]
        (schemaOfType TypeMap) [] Map.empty Map.empty NewValidationContext =
      validatePairs [] (schemaOfType TypeMap) []
        [''foo'' \<mapsto> scalarNode ''!!int'' ''1'' 1 6] [''foo'' \<mapsto> scalarNode ''!!str'' ''foo'' 1 1]
        ctx2 \<and>
      errors (collector ctx2) = [] \<and>
      warnings (collector ctx2) =
        [\<lparr>Level = LevelWarning, Path = ''foo'', Line = 1, Column = 1,
          Message = ''unknown key '' @ [CHR 0x22] @ ''foo'' @ [CHR 0x22],
          Got = ''int '' @ [CHR 0x22] @ ''1'' @ [CHR 0x22], Expected = []\<rparr>]) \<and>
   map_option collector
     (validateNode ex_foo_map (Some (schemaOfType TypeMap)) [] NewValidationContext) =
     Some \<lparr>errors = [],
           warnings = [\<lparr>Level = LevelWarning, Path = ''foo'', Line = 1, Column = 1,
             Message = ''unknown key '' @ [CHR 0x22] @ ''foo'' @ [CHR 0x22],
             Got = ''int '' @ [CHR 0x22] @ ''1'' @ [CHR 0x22], Expected = []\<rparr>]\<rparr> \<and>
   map_option collector
     (validateNode ex_foo_map (Some (schemaOfType TypeMap)) []
        (NewValidationContext\<lparr>StrictKeys := True\<rparr>)) =
     Some \<lparr>errors = [\<lparr>Level = LevelError, Path = ''foo'', Line = 1, Column = 1,
             Message = ''unknown key '' @ [CHR 0x22] @ ''foo'' @ [CHR 0x22],
             Got = ''int '' @ [CHR 0x22] @ ''1'' @ [CHR 0x22], Expected = []\<rparr>],
           warnings = []\<rparr>"
proof -
  have q1: "Quote ''foo'' = [CHR 0x22] @ ''foo'' @ [CHR 0x22]" by code_simp
  have q2: "describeNode (scalarNode ''!!int'' ''1'' 1 6) = ''int '' @ [CHR 0x22] @ ''1'' @ [CHR 0x22]"
    by code_simp
  have h: "map_of (AllowedKeys (schemaOfType TypeMap)) ''foo'' = None \<and>
      AdditionalProperties (schemaOfType TypeMap) = None \<and> \<not> stopped NewValidationContext"
    by (simp add: schemaOfType_def NewValidationContext_def)
  have c: "\<exists>ctx2.
      validatePairs
        [\<lparr>kvKey = scalarNode ''!!str'' ''foo'' 1 1, kvValue = scalarNode ''!!int'' ''1'' 1 6\<rparr>]
        (schemaOfType TypeMap) [] Map.empty Map.empty NewValidationContext =
      validatePairs [] (schemaOfType TypeMap) []
        [''foo'' \<mapsto> scalarNode ''!!int'' ''1'' 1 6] [''foo'' \<mapsto> scalarNode ''!!str'' ''foo'' 1 1]
        ctx2 \<and>
      errors (collector ctx2) = [] \<and>
      warnings (collector ctx2) =
        [\<lparr>Level = LevelWarning, Path = ''foo'', Line = 1, Column = 1,
          Message = ''unknown key '' @ [CHR 0x22] @ ''foo'' @ [CHR 0x22],
          Got = ''int '' @ [CHR 0x22] @ ''1'' @ [CHR 0x22], Expected = []\<rparr>]"
    using h q1 q2
      unknown_key_policy
        [where schema = "schemaOfType TypeMap"
           and kv = "\<lparr>kvKey = scalarNode ''!!str'' ''foo'' 1 1, kvValue = scalarNode ''!!int'' ''1'' 1 6\<rparr>"
           and ctx = NewValidationContext and ctxK = NewValidationContext and path = "[]"
           and rest = "[]" and foundKeys = Map.empty and keyNodes = Map.empty
           and d = "\<lambda>level. \<lparr>Level = level, Path = ''foo'', Line = 1, Column = 1,
                      Message = ''unknown key '' @ [CHR 0x22] @ ''foo'' @ [CHR 0x22],
                      Got = ''int '' @ [CHR 0x22] @ ''1'' @ [CHR 0x22], Expected = []\<rparr>"]
    by (simp add: schemaOfType_def NewValidationContext_def NewErrorCollector_def scalarNode_def
        runKeyValidators_def joinPath_def cleanPath_def TrimPrefix_def HasPrefix_def)
  have e1: "map_option collector
     (validateNode ex_foo_map (Some (schemaOfType TypeMap)) [] NewValidationContext) =
     Some \<lparr>errors = [],
           warnings = [\<lparr>Level = LevelWarning, Path = ''foo'', Line = 1, Column = 1,
             Message = ''unknown key '' @ [CHR 0x22] @ ''foo'' @ [CHR 0x22],
             Got = ''int '' @ [CHR 0x22] @ ''1'' @ [CHR 0x22], Expected = []\<rparr>]\<rparr>"
    by code_simp
  have e2: "map_option collector
     (validateNode ex_foo_map (Some (schemaOfType TypeMap)) []
        (NewValidationContext\<lparr>StrictKeys := True\<rparr>)) =
     Some \<lparr>errors = [\<lparr>Level = LevelError, Path = ''foo'', Line = 1, Column = 1,
             Message = ''unknown key '' @ [CHR 0x22] @ ''foo'' @ [CHR 0x22],
             Got = ''int '' @ [CHR 0x22] @ ''1'' @ [CHR 0x22], Expected = []\<rparr>],
           warnings = []\<rparr>"
    by code_simp
  show ?thesis using h c e1 e2 by blast
qed

section \<open>Exactly one of\<close>

text \<open>
  The two maps that the loop of \<^verbatim>\<open>validateMapping\<close> fills hold the same keys, so the
  key node of a key that was found is there when \<^verbatim>\<open>checkExactlyOneOf\<close> asks for it.
\<close>

lemma validatePairs_dom:
  "validatePairs pairs schema path foundKeys keyNodes ctx = Some (Completed foundKeys' keyNodes' ctx')
   \<Longrightarrow> dom foundKeys = dom keyNodes \<Longrightarrow> dom foundKeys' = dom keyNodes'"
proof (induction pairs arbitrary: foundKeys keyNodes ctx)
  case Nil
  then show ?case by (simp add: validatePairs.simps)
next
  case (Cons kv rest)
  let ?f = "foundKeys(Value (kvKey kv) \<mapsto> kvValue kv)"
  let ?k = "keyNodes(Value (kvKey kv) \<mapsto> kvKey kv)"
  have d: "dom ?f = dom ?k" using Cons.prems(2) by simp
  from Cons.prems(1) obtain c where
    "validatePairs rest schema path ?f ?k c = Some (Completed foundKeys' keyNodes' ctx')"
    by (auto simp: validatePairs.simps Let_def split: if_splits option.splits)
  then show ?case using Cons.IH d by blast
qed

text \<open>
  C3. For a schema with a non-empty \<^verbatim>\<open>ExactlyOneOf\<close> list and a running context,
  \<^verbatim>\<open>found\<close> being the listed keys that are present, in the order of the list: when
  \<^verbatim>\<open>found\<close> is empty, exactly one error is recorded, saying that none was found, at the
  position of the map; when \<^verbatim>\<open>found\<close> has two or more entries, exactly one error is
  recorded, at the line and column of the key node of the second entry of \<^verbatim>\<open>found\<close>.
  In both cases the warnings stay as they are.
\<close>

theorem checkExactlyOneOf_position:
  "ExactlyOneOf schema \<noteq> [] \<and> \<not> stopped ctx \<and>
   found = filter (\<lambda>key. foundKeys key \<noteq> None) (ExactlyOneOf schema) \<longrightarrow>
   (found = [] \<longrightarrow>
      (\<exists>ctx' e. checkExactlyOneOf node schema path foundKeys keyNodes ctx = Some ctx' \<and>
         errors (collector ctx') = errors (collector ctx) @ [e] \<and>
         warnings (collector ctx') = warnings (collector ctx) \<and>
         Level e = LevelError \<and> Line e = NLine node \<and> Column e = NColumn node \<and>
         Path e = cleanPath path \<and>
         Message e = ''exactly one of '' @ fmtStrings (ExactlyOneOf schema)
                     @ '' is required, none found'')) \<and>
   (length found \<ge> 2 \<and> keyNodes (found ! 1) = Some keyNode \<longrightarrow>
      (\<exists>ctx' e. checkExactlyOneOf node schema path foundKeys keyNodes ctx = Some ctx' \<and>
         errors (collector ctx') = errors (collector ctx) @ [e] \<and>
         warnings (collector ctx') = warnings (collector ctx) \<and>
         Level e = LevelError \<and> Line e = NLine keyNode \<and> Column e = NColumn keyNode \<and>
         Path e = cleanPath path \<and>
         Message e = ''exactly one of '' @ fmtStrings (ExactlyOneOf schema)
                     @ '' is required, found: '' @ fmtStrings found)) \<and>
   (length found = 1 \<longrightarrow> checkExactlyOneOf node schema path foundKeys keyNodes ctx = Some ctx) \<and>
   (length found \<ge> 2 \<and> dom foundKeys = dom keyNodes \<longrightarrow> keyNodes (found ! 1) \<noteq> None)"
proof (intro impI, elim conjE, intro conjI impI)
  assume ne: "ExactlyOneOf schema \<noteq> []" and run: "\<not> stopped ctx"
    and f: "found = filter (\<lambda>key. foundKeys key \<noteq> None) (ExactlyOneOf schema)"
  {
    assume e: "found = []"
    let ?e = "\<lparr>Level = LevelError, Path = cleanPath path,
               Line = NLine node, Column = NColumn node,
               Message = ''exactly one of '' @ fmtStrings (ExactlyOneOf schema)
                         @ '' is required, none found'',
               Got = [], Expected = []\<rparr>"
    have r: "checkExactlyOneOf node schema path foundKeys keyNodes ctx = Some (AddError ctx ?e)"
      unfolding checkExactlyOneOf_def Let_def f [symmetric] using ne e by auto
    have "errors (collector (AddError ctx ?e)) = errors (collector ctx) @ [?e] \<and>
          warnings (collector (AddError ctx ?e)) = warnings (collector ctx)"
      using run by (intro AddError_running_error) simp_all
    then show "\<exists>ctx' e. checkExactlyOneOf node schema path foundKeys keyNodes ctx = Some ctx' \<and>
         errors (collector ctx') = errors (collector ctx) @ [e] \<and>
         warnings (collector ctx') = warnings (collector ctx) \<and>
         Level e = LevelError \<and> Line e = NLine node \<and> Column e = NColumn node \<and>
         Path e = cleanPath path \<and>
         Message e = ''exactly one of '' @ fmtStrings (ExactlyOneOf schema)
                     @ '' is required, none found''"
      using r by (intro exI[of _ "AddError ctx ?e"] exI[of _ ?e]) simp
  }
  {
    assume two: "length found \<ge> 2 \<and> keyNodes (found ! 1) = Some keyNode"
    let ?e = "\<lparr>Level = LevelError, Path = cleanPath path,
               Line = NLine keyNode, Column = NColumn keyNode,
               Message = ''exactly one of '' @ fmtStrings (ExactlyOneOf schema)
                         @ '' is required, found: '' @ fmtStrings found,
               Got = [], Expected = []\<rparr>"
    have r: "checkExactlyOneOf node schema path foundKeys keyNodes ctx = Some (AddError ctx ?e)"
      unfolding checkExactlyOneOf_def Let_def f [symmetric] using ne two by auto
    have "errors (collector (AddError ctx ?e)) = errors (collector ctx) @ [?e] \<and>
          warnings (collector (AddError ctx ?e)) = warnings (collector ctx)"
      using run by (intro AddError_running_error) simp_all
    then show "\<exists>ctx' e. checkExactlyOneOf node schema path foundKeys keyNodes ctx = Some ctx' \<and>
         errors (collector ctx') = errors (collector ctx) @ [e] \<and>
         warnings (collector ctx') = warnings (collector ctx) \<and>
         Level e = LevelError \<and> Line e = NLine keyNode \<and> Column e = NColumn keyNode \<and>
         Path e = cleanPath path \<and>
         Message e = ''exactly one of '' @ fmtStrings (ExactlyOneOf schema)
                     @ '' is required, found: '' @ fmtStrings found"
      using r by (intro exI[of _ "AddError ctx ?e"] exI[of _ ?e]) simp
  }
  {
    assume "length found = 1"
    then show "checkExactlyOneOf node schema path foundKeys keyNodes ctx = Some ctx"
      unfolding checkExactlyOneOf_def Let_def f [symmetric] using ne by auto
  }
  {
    assume two: "length found \<ge> 2 \<and> dom foundKeys = dom keyNodes"
    then have "found ! 1 \<in> set found" by simp
    then have "foundKeys (found ! 1) \<noteq> None" unfolding f by simp
    then have "found ! 1 \<in> dom keyNodes" using two by auto
    then show "keyNodes (found ! 1) \<noteq> None" by auto
  }
qed

theorem checkExactlyOneOf_position_witness:
  "ExactlyOneOf ex_one_of_schema \<noteq> [] \<and> \<not> stopped NewValidationContext \<and>
   [''a'', ''b''] =
     filter (\<lambda>key. [''a'' \<mapsto> scalarNode ''!!int'' ''1'' 1 4, ''b'' \<mapsto> scalarNode ''!!int'' ''2'' 2 4] key \<noteq> None)
       (ExactlyOneOf ex_one_of_schema) \<and>
   [''a'' \<mapsto> scalarNode ''!!str'' ''a'' 1 1, ''b'' \<mapsto> scalarNode ''!!str'' ''b'' 2 1] ([''a'', ''b''] ! 1) =
     Some (scalarNode ''!!str'' ''b'' 2 1) \<and>
   (\<exists>ctx' e.
      checkExactlyOneOf ex_ab_map ex_one_of_schema []
        [''a'' \<mapsto> scalarNode ''!!int'' ''1'' 1 4, ''b'' \<mapsto> scalarNode ''!!int'' ''2'' 2 4]
        [''a'' \<mapsto> scalarNode ''!!str'' ''a'' 1 1, ''b'' \<mapsto> scalarNode ''!!str'' ''b'' 2 1]
        NewValidationContext = Some ctx' \<and>
      errors (collector ctx') = [e] \<and> warnings (collector ctx') = [] \<and>
      Level e = LevelError \<and> Line e = 2 \<and> Column e = 1 \<and>
      Message e = ''exactly one of [c a b] is required, found: [a b]'') \<and>
   map_option collector (validateNode ex_ab_map (Some ex_one_of_schema) [] NewValidationContext) =
     Some \<lparr>errors = [\<lparr>Level = LevelError, Path = [], Line = 2, Column = 1,
             Message = ''exactly one of [c a b] is required, found: [a b]'',
             Got = [], Expected = []\<rparr>],
           warnings = []\<rparr>"
proof -
  have h: "ExactlyOneOf ex_one_of_schema \<noteq> [] \<and> \<not> stopped NewValidationContext \<and>
     [''a'', ''b''] =
       filter (\<lambda>key. [''a'' \<mapsto> scalarNode ''!!int'' ''1'' 1 4, ''b'' \<mapsto> scalarNode ''!!int'' ''2'' 2 4] key \<noteq> None)
         (ExactlyOneOf ex_one_of_schema)"
    by (simp add: ex_one_of_schema_def NewValidationContext_def)
  have k: "[''a'' \<mapsto> scalarNode ''!!str'' ''a'' 1 1, ''b'' \<mapsto> scalarNode ''!!str'' ''b'' 2 1] ([''a'', ''b''] ! 1) =
     Some (scalarNode ''!!str'' ''b'' 2 1)"
    by simp
  have c: "\<exists>ctx' e.
      checkExactlyOneOf ex_ab_map ex_one_of_schema []
        [''a'' \<mapsto> scalarNode ''!!int'' ''1'' 1 4, ''b'' \<mapsto> scalarNode ''!!int'' ''2'' 2 4]
        [''a'' \<mapsto> scalarNode ''!!str'' ''a'' 1 1, ''b'' \<mapsto> scalarNode ''!!str'' ''b'' 2 1]
        NewValidationContext = Some ctx' \<and>
      errors (collector ctx') = [e] \<and> warnings (collector ctx') = [] \<and>
      Level e = LevelError \<and> Line e = 2 \<and> Column e = 1 \<and>
      Message e = ''exactly one of [c a b] is required, found: [a b]''"
    using h k
      checkExactlyOneOf_position
        [where schema = ex_one_of_schema and ctx = NewValidationContext
           and found = "[''a'', ''b'']"
           and foundKeys = "[''a'' \<mapsto> scalarNode ''!!int'' ''1'' 1 4, ''b'' \<mapsto> scalarNode ''!!int'' ''2'' 2 4]"
           and keyNodes = "[''a'' \<mapsto> scalarNode ''!!str'' ''a'' 1 1, ''b'' \<mapsto> scalarNode ''!!str'' ''b'' 2 1]"
           and keyNode = "scalarNode ''!!str'' ''b'' 2 1"
           and node = ex_ab_map and path = "[]"]
    by (simp add: ex_one_of_schema_def NewValidationContext_def NewErrorCollector_def
        scalarNode_def fmtStrings_def, blast)
  have e: "map_option collector (validateNode ex_ab_map (Some ex_one_of_schema) [] NewValidationContext) =
     Some \<lparr>errors = [\<lparr>Level = LevelError, Path = [], Line = 2, Column = 1,
             Message = ''exactly one of [c a b] is required, found: [a b]'',
             Got = [], Expected = []\<rparr>],
           warnings = []\<rparr>"
    by code_simp
  show ?thesis using h k c e by blast
qed

section \<open>Merge keys\<close>

lemma mappingToPairs_loop_spec:
  "mappingToPairs_loop content out =
     (if even (length content) then Some (out @ spec_pairs content) else None)"
  by (induction content out rule: mappingToPairs_loop.induct) simp_all

lemma extract_fold:
  "(\<And>item. item \<in> set content \<Longrightarrow> extractMergePairs item = Some (f item)) \<Longrightarrow>
   foldl (\<lambda>out item. case out of None \<Rightarrow> None
                       | Some ps \<Rightarrow> map_option ((@) ps) (extractMergePairs item))
     (Some acc) content = Some (acc @ concat (map f content))"
  by (induction content arbitrary: acc) simp_all

lemma extractMergePairs_spec:
  "wellFormed n \<Longrightarrow> extractMergePairs n = Some (spec_mergeValuePairs n)"
proof (induction n)
  case (Node k tg v l c content al)
  show ?case
  proof (cases k)
    case AliasNode
    then show ?thesis
      using Node.IH(2) Node.prems by (cases al) simp_all
  next
    case MappingNode
    then show ?thesis
      using Node.prems by (simp add: mappingToPairs_loop_spec)
  next
    case SequenceNode
    have "\<And>item. item \<in> set content \<Longrightarrow> extractMergePairs item = Some (spec_mergeValuePairs item)"
      using Node.IH(1) Node.prems by (simp add: list_all_iff)
    then show ?thesis
      using SequenceNode by (simp add: extract_fold)
  qed simp_all
qed

lemma spec_entryPairs_pair:
  "spec_entryPairs \<lparr>kvKey = k, kvValue = v\<rparr> =
     (if Value k = ''<<'' then spec_mergeValuePairs v else [\<lparr>kvKey = k, kvValue = v\<rparr>])"
  by (simp add: spec_entryPairs_def)

lemma expand_loop_spec:
  "list_all wellFormed content \<Longrightarrow> even (length content) \<Longrightarrow>
   expand_loop content pairs = Some (pairs @ concat (map spec_entryPairs (spec_pairs content)))"
proof (induction content pairs rule: expand_loop.induct)
  case (1 pairs)
  then show ?case by simp
next
  case (2 k pairs)
  then show ?case by simp
next
  case (3 k v rest pairs)
  show ?case
  proof (cases "Value k = ''<<''")
    case True
    have v: "extractMergePairs v = Some (spec_mergeValuePairs v)"
      using "3.prems" by (simp add: extractMergePairs_spec)
    have "expand_loop rest (pairs @ spec_mergeValuePairs v) =
        Some ((pairs @ spec_mergeValuePairs v) @ concat (map spec_entryPairs (spec_pairs rest)))"
      using "3.IH"(1) [OF True v] "3.prems" by simp
    then show ?thesis using True v by (simp add: spec_entryPairs_pair)
  next
    case False
    have "expand_loop rest (pairs @ [\<lparr>kvKey = k, kvValue = v\<rparr>]) =
        Some ((pairs @ [\<lparr>kvKey = k, kvValue = v\<rparr>]) @ concat (map spec_entryPairs (spec_pairs rest)))"
      using "3.IH"(2) [OF False] "3.prems" by simp
    then show ?thesis using False by (simp add: spec_entryPairs_pair)
  qed
qed

text \<open>The first loop of the removal stores, for every key, the index of its last pair.\<close>

lemma dedupe_seen_snoc:
  "dedupe_seen (ps @ [p]) idx seen = (dedupe_seen ps idx seen)(Value (kvKey p) \<mapsto> idx + length ps)"
  by (induction ps arbitrary: idx seen) simp_all

definition lastIndexMap :: "(string \<rightharpoonup> nat) \<Rightarrow> kvPair list \<Rightarrow> bool" where
  "lastIndexMap seen ps \<longleftrightarrow>
     (\<forall>i < length ps. \<exists>j. seen (Value (kvKey (ps ! i))) = Some j \<and>
        (j = i \<longleftrightarrow> Value (kvKey (ps ! i)) \<notin> set (map (\<lambda>q. Value (kvKey q)) (drop (Suc i) ps))))"

lemma dedupe_seen_lastIndexMap: "lastIndexMap (dedupe_seen ps 0 Map.empty) ps"
proof (induction ps rule: rev_induct)
  case Nil
  then show ?case by (simp add: lastIndexMap_def)
next
  case (snoc p ps)
  let ?S = "dedupe_seen ps 0 Map.empty"
  let ?S' = "?S(Value (kvKey p) \<mapsto> length ps)"
  have S': "dedupe_seen (ps @ [p]) 0 Map.empty = ?S'"
    by (simp add: dedupe_seen_snoc)
  have "\<exists>j. ?S' (Value (kvKey ((ps @ [p]) ! i))) = Some j \<and>
        (j = i \<longleftrightarrow> Value (kvKey ((ps @ [p]) ! i))
            \<notin> set (map (\<lambda>q. Value (kvKey q)) (drop (Suc i) (ps @ [p]))))"
    if i: "i < length (ps @ [p])" for i
  proof (cases "i < length ps")
    case True
    from snoc.IH True obtain j where
      j: "?S (Value (kvKey (ps ! i))) = Some j"
        "j = i \<longleftrightarrow> Value (kvKey (ps ! i)) \<notin> set (map (\<lambda>q. Value (kvKey q)) (drop (Suc i) ps))"
      unfolding lastIndexMap_def by blast
    show ?thesis
    proof (cases "Value (kvKey (ps ! i)) = Value (kvKey p)")
      case same: True
      then show ?thesis using True by (simp add: nth_append)
    next
      case False
      then show ?thesis using True j by (simp add: nth_append)
    qed
  next
    case False
    then have "i = length ps" using i by simp
    then show ?thesis by simp
  qed
  then show ?case unfolding S' lastIndexMap_def by blast
qed

lemma dedupe_keep_spec:
  "lastIndexMap seen ps \<Longrightarrow> n \<le> length ps \<Longrightarrow>
   dedupe_keep (drop n ps) n seen out =
     out @ map (\<lambda>i. ps ! i)
       (filter (\<lambda>i. Value (kvKey (ps ! i)) \<notin> set (map (\<lambda>q. Value (kvKey q)) (drop (Suc i) ps)))
          [n..<length ps])"
proof (induction "length ps - n" arbitrary: n out)
  case 0
  then show ?case by simp
next
  case (Suc m)
  then have n: "n < length ps" by simp
  from Suc.prems(1) n obtain j where
    j: "seen (Value (kvKey (ps ! n))) = Some j"
      "j = n \<longleftrightarrow> Value (kvKey (ps ! n)) \<notin> set (map (\<lambda>q. Value (kvKey q)) (drop (Suc n) ps))"
    unfolding lastIndexMap_def by blast
  have d: "drop n ps = ps ! n # drop (Suc n) ps"
    using n by (simp add: Cons_nth_drop_Suc)
  have u: "[n..<length ps] = n # [Suc n..<length ps]"
    using n by (simp add: upt_conv_Cons)
  have m: "m = length ps - Suc n" using Suc.hyps(2) by simp
  have IH: "\<And>out. dedupe_keep (drop (Suc n) ps) (Suc n) seen out =
     out @ map (\<lambda>i. ps ! i)
       (filter (\<lambda>i. Value (kvKey (ps ! i)) \<notin> set (map (\<lambda>q. Value (kvKey q)) (drop (Suc i) ps)))
          [Suc n..<length ps])"
    using Suc.hyps(1) [OF m Suc.prems(1)] n by simp
  show ?case
    unfolding d u using j by (simp add: IH)
qed

lemma dedupePairsKeepLast_spec: "dedupePairsKeepLast ps = spec_keepLast ps"
  using dedupe_keep_spec [OF dedupe_seen_lastIndexMap, of 0 ps "[]"]
  by (simp add: dedupePairsKeepLast_def spec_keepLast_def)

lemma spec_keepLast_Cons:
  "spec_keepLast (p # ps) =
     (if Value (kvKey p) \<in> set (map (\<lambda>q. Value (kvKey q)) ps) then [] else [p]) @ spec_keepLast ps"
proof -
  have u: "[0..<length (p # ps)] = 0 # map Suc [0..<length ps]"
    by (simp add: upt_conv_Cons map_Suc_upt del: upt_Suc)
  show ?thesis
    unfolding spec_keepLast_def u by (simp add: filter_map comp_def)
qed

lemma spec_keepLast_keys:
  "set (map (\<lambda>q. Value (kvKey q)) (spec_keepLast ps)) = set (map (\<lambda>q. Value (kvKey q)) ps)"
proof (induction ps)
  case Nil
  then show ?case by (simp add: spec_keepLast_def)
next
  case (Cons p ps)
  then show ?case by (auto simp: spec_keepLast_Cons)
qed

lemma spec_keepLast_distinct: "distinct (map (\<lambda>q. Value (kvKey q)) (spec_keepLast ps))"
proof (induction ps)
  case Nil
  then show ?case by (simp add: spec_keepLast_def)
next
  case (Cons p ps)
  have "Value (kvKey p) \<notin> set (map (\<lambda>q. Value (kvKey q)) ps) \<Longrightarrow>
        Value (kvKey p) \<notin> set (map (\<lambda>q. Value (kvKey q)) (spec_keepLast ps))"
    using spec_keepLast_keys [of ps] by simp
  then show ?case using Cons by (auto simp: spec_keepLast_Cons)
qed

text \<open>
  C1. On a well-formed mapping node, \<^verbatim>\<open>expandMappingWithMerges\<close> returns the list that
  the specification describes: every entry named \<^verbatim>\<open><<\<close> replaced by the pairs of its
  value (those of the map it is or is an alias of, or of the elements of a sequence, in
  order), all in source order, and of every key only the last occurrence kept.
\<close>

theorem expandMappingWithMerges_spec:
  "wellFormed node \<and> Kind node = MappingNode \<longrightarrow>
     expandMappingWithMerges node = Some (spec_expand node) \<and>
     spec_expand node =
       spec_keepLast (concat (map spec_entryPairs (spec_pairs (Content node)))) \<and>
     distinct (map (\<lambda>q. Value (kvKey q)) (spec_expand node)) \<and>
     set (map (\<lambda>q. Value (kvKey q)) (spec_expand node)) =
       set (map (\<lambda>q. Value (kvKey q)) (concat (map spec_entryPairs (spec_pairs (Content node)))))"
proof (intro impI, elim conjE, intro conjI)
  assume wf: "wellFormed node" and k: "Kind node = MappingNode"
  obtain kd tg v l c content al where n: "node = Node kd tg v l c content al"
    by (cases node)
  have "list_all wellFormed content" "even (length content)"
    using wf k n by simp_all
  then have "expand_loop content [] = Some (concat (map spec_entryPairs (spec_pairs content)))"
    using expand_loop_spec [of content "[]"] by simp
  then show "expandMappingWithMerges node = Some (spec_expand node)"
    using k n by (simp add: expandMappingWithMerges_def spec_expand_def dedupePairsKeepLast_spec)
  show "spec_expand node =
       spec_keepLast (concat (map spec_entryPairs (spec_pairs (Content node))))"
    by (simp add: spec_expand_def)
  show "distinct (map (\<lambda>q. Value (kvKey q)) (spec_expand node))"
    unfolding spec_expand_def by (rule spec_keepLast_distinct)
  show "set (map (\<lambda>q. Value (kvKey q)) (spec_expand node)) =
       set (map (\<lambda>q. Value (kvKey q)) (concat (map spec_entryPairs (spec_pairs (Content node)))))"
    unfolding spec_expand_def by (rule spec_keepLast_keys)
qed

theorem expandMappingWithMerges_spec_witness:
  "wellFormed ex_merge_map \<and> Kind ex_merge_map = MappingNode \<and>
   expandMappingWithMerges ex_merge_map =
     Some [\<lparr>kvKey = scalarNode ''!!str'' ''timeout'' 1 14, kvValue = scalarNode ''!!int'' ''30'' 1 23\<rparr>,
           \<lparr>kvKey = scalarNode ''!!str'' ''host'' 2 17, kvValue = scalarNode ''!!str'' ''x'' 2 23\<rparr>] \<and>
   spec_expand ex_merge_map =
     [\<lparr>kvKey = scalarNode ''!!str'' ''timeout'' 1 14, kvValue = scalarNode ''!!int'' ''30'' 1 23\<rparr>,
      \<lparr>kvKey = scalarNode ''!!str'' ''host'' 2 17, kvValue = scalarNode ''!!str'' ''x'' 2 23\<rparr>]"
proof -
  have h: "wellFormed ex_merge_map \<and> Kind ex_merge_map = MappingNode"
    by (simp add: ex_merge_map_def ex_ref_map_def scalarNode_def)
  have s: "spec_expand ex_merge_map =
     [\<lparr>kvKey = scalarNode ''!!str'' ''timeout'' 1 14, kvValue = scalarNode ''!!int'' ''30'' 1 23\<rparr>,
      \<lparr>kvKey = scalarNode ''!!str'' ''host'' 2 17, kvValue = scalarNode ''!!str'' ''x'' 2 23\<rparr>]"
    by code_simp
  show ?thesis
    using h s expandMappingWithMerges_spec [of ex_merge_map] by simp
qed

lemma expand_loop_drop_entry:
  "even (length pre) \<Longrightarrow> Value k = ''<<'' \<Longrightarrow> extractMergePairs v = Some [] \<Longrightarrow>
   expand_loop (pre @ k # v # post) pairs = expand_loop (pre @ post) pairs"
proof (induction pre arbitrary: pairs rule: induct_list012)
  case 1
  then show ?case by simp
next
  case (2 x)
  then show ?case by simp
next
  case (3 x y zs)
  then show ?case by (simp split: option.splits)
qed

lemma checkFields_position:
  assumes "NLine n1 = NLine n2" and "NColumn n1 = NColumn n2"
  shows "checkFields n1 schema path foundKeys keyNodes ctx =
         checkFields n2 schema path foundKeys keyNodes ctx"
proof -
  have r: "\<And>c. checkRequiredFields n1 schema path foundKeys c =
                checkRequiredFields n2 schema path foundKeys c"
    unfolding checkRequiredFields_def assms by (rule refl)
  have d: "\<And>c. checkDefaults n1 schema path foundKeys c = checkDefaults n2 schema path foundKeys c"
    unfolding checkDefaults_def assms by (rule refl)
  have a: "\<And>c. checkAnyOf n1 schema path foundKeys c = checkAnyOf n2 schema path foundKeys c"
    unfolding checkAnyOf_def assms by (rule refl)
  have e: "\<And>c. checkExactlyOneOf n1 schema path foundKeys keyNodes c =
                checkExactlyOneOf n2 schema path foundKeys keyNodes c"
    unfolding checkExactlyOneOf_def assms by (rule refl)
  have m: "\<And>c. checkMutuallyExclusive n1 schema path foundKeys keyNodes c =
                checkMutuallyExclusive n2 schema path foundKeys keyNodes c"
    by (simp add: checkMutuallyExclusive_def)
  have k: "\<And>c. checkConditions n1 schema path foundKeys keyNodes c =
                checkConditions n2 schema path foundKeys keyNodes c"
    by (simp add: checkConditions_def)
  show ?thesis
    by (simp only: checkFields_def r d a e m k)
qed

lemma validateMapping_expand:
  assumes "expandMappingWithMerges n1 = expandMappingWithMerges n2"
    and "NLine n1 = NLine n2" and "NColumn n1 = NColumn n2"
  shows "validateMapping n1 schema path ctx = validateMapping n2 schema path ctx"
proof -
  have cf: "\<And>f k c. checkFields n1 schema path f k c = checkFields n2 schema path f k c"
    using assms(2,3) by (rule checkFields_position)
  show ?thesis
    unfolding validateMapping.simps assms(1) cf by (rule refl)
qed

text \<open>
  C10. A merge entry whose value is a scalar (or any node that is no alias, map or
  sequence) or an alias without a target gives no pair: the expanded list of the map is
  the list of the same map without the entry. \<^verbatim>\<open>validateMapping\<close> reads the map only
  through that list and the position of the map, so it does on the map what it does
  on the map without the entry: nothing is recorded for the entry, and the other pairs
  are treated alike.
\<close>

theorem merge_value_without_pairs:
  "Value k = ''<<'' \<and> even (length pre) \<and>
   (Kind v = ScalarNode \<or> Kind v = DocumentNode \<or> (Kind v = AliasNode \<and> Alias v = None)) \<longrightarrow>
     extractMergePairs v = Some [] \<and>
     expand_loop (pre @ k # v # post) pairs = expand_loop (pre @ post) pairs \<and>
     expandMappingWithMerges (Node MappingNode tg vl l c (pre @ k # v # post) al) =
       expandMappingWithMerges (Node MappingNode tg vl l c (pre @ post) al) \<and>
     validateMapping (Node MappingNode tg vl l c (pre @ k # v # post) al) schema path ctx =
       validateMapping (Node MappingNode tg vl l c (pre @ post) al) schema path ctx"
proof (intro impI, elim conjE)
  assume k: "Value k = ''<<''" and pre: "even (length pre)"
    and v: "Kind v = ScalarNode \<or> Kind v = DocumentNode \<or> (Kind v = AliasNode \<and> Alias v = None)"
  have none: "extractMergePairs v = Some []"
    using v by (cases v) auto
  have loop: "\<And>pairs. expand_loop (pre @ k # v # post) pairs = expand_loop (pre @ post) pairs"
    using pre k none by (rule expand_loop_drop_entry)
  have ex: "expandMappingWithMerges (Node MappingNode tg vl l c (pre @ k # v # post) al) =
       expandMappingWithMerges (Node MappingNode tg vl l c (pre @ post) al)"
    by (simp add: expandMappingWithMerges_def loop)
  have "validateMapping (Node MappingNode tg vl l c (pre @ k # v # post) al) schema path ctx =
       validateMapping (Node MappingNode tg vl l c (pre @ post) al) schema path ctx"
    using ex by (rule validateMapping_expand) simp_all
  then show "extractMergePairs v = Some [] \<and>
     expand_loop (pre @ k # v # post) pairs = expand_loop (pre @ post) pairs \<and>
     expandMappingWithMerges (Node MappingNode tg vl l c (pre @ k # v # post) al) =
       expandMappingWithMerges (Node MappingNode tg vl l c (pre @ post) al) \<and>
     validateMapping (Node MappingNode tg vl l c (pre @ k # v # post) al) schema path ctx =
       validateMapping (Node MappingNode tg vl l c (pre @ post) al) schema path ctx"
    using none loop ex by simp
qed

theorem merge_value_without_pairs_witness:
  "Value (scalarNode ''!!merge'' ''<<'' 1 2) = ''<<'' \<and> even (length ([] :: Node list)) \<and>
   Kind (scalarNode ''!!str'' ''oops'' 1 6) = ScalarNode \<and>
   Kind (Node AliasNode [] ''gone'' 1 6 [] None) = AliasNode \<and>
   Alias (Node AliasNode [] ''gone'' 1 6 [] None) = None \<and>
   expandMappingWithMerges ex_merge_scalar =
     Some [\<lparr>kvKey = scalarNode ''!!str'' ''host'' 1 12, kvValue = scalarNode ''!!str'' ''x'' 1 18\<rparr>] \<and>
   expandMappingWithMerges ex_merge_unresolved =
     Some [\<lparr>kvKey = scalarNode ''!!str'' ''host'' 1 12, kvValue = scalarNode ''!!str'' ''x'' 1 18\<rparr>] \<and>
   validateMapping ex_merge_scalar ex_host_schema [] NewValidationContext = Some NewValidationContext \<and>
   validateMapping ex_merge_unresolved ex_host_schema [] NewValidationContext = Some NewValidationContext \<and>
   validateNode ex_merge_scalar (Some ex_host_schema) [] NewValidationContext = Some NewValidationContext \<and>
   validateNode ex_merge_unresolved (Some ex_host_schema) [] NewValidationContext = Some NewValidationContext"
proof -
  have a: "expandMappingWithMerges (Node MappingNode ''!!map'' [] 1 1
       ([] @ [scalarNode ''!!str'' ''host'' 1 12, scalarNode ''!!str'' ''x'' 1 18]) None) =
     Some [\<lparr>kvKey = scalarNode ''!!str'' ''host'' 1 12, kvValue = scalarNode ''!!str'' ''x'' 1 18\<rparr>]"
    by code_simp
  have b: "validateMapping (Node MappingNode ''!!map'' [] 1 1
       ([] @ [scalarNode ''!!str'' ''host'' 1 12, scalarNode ''!!str'' ''x'' 1 18]) None)
       ex_host_schema [] NewValidationContext = Some NewValidationContext"
    by code_simp
  have n1: "validateNode ex_merge_scalar (Some ex_host_schema) [] NewValidationContext =
      Some NewValidationContext"
    by code_simp
  have n2: "validateNode ex_merge_unresolved (Some ex_host_schema) [] NewValidationContext =
      Some NewValidationContext"
    by code_simp
  have h1: "Value (scalarNode ''!!merge'' ''<<'' 1 2) = ''<<'' \<and> even (length ([] :: Node list)) \<and>
      Kind (scalarNode ''!!str'' ''oops'' 1 6) = ScalarNode"
    by (simp add: scalarNode_def)
  have h2: "Kind (Node AliasNode [] ''gone'' 1 6 [] None) = AliasNode \<and>
      Alias (Node AliasNode [] ''gone'' 1 6 [] None) = None"
    by simp
  have t1: "expandMappingWithMerges ex_merge_scalar =
      expandMappingWithMerges (Node MappingNode ''!!map'' [] 1 1
        ([] @ [scalarNode ''!!str'' ''host'' 1 12, scalarNode ''!!str'' ''x'' 1 18]) None) \<and>
     validateMapping ex_merge_scalar ex_host_schema [] NewValidationContext =
      validateMapping (Node MappingNode ''!!map'' [] 1 1
        ([] @ [scalarNode ''!!str'' ''host'' 1 12, scalarNode ''!!str'' ''x'' 1 18]) None)
        ex_host_schema [] NewValidationContext"
    unfolding ex_merge_scalar_def
    using h1 merge_value_without_pairs
        [where k = "scalarNode ''!!merge'' ''<<'' 1 2" and pre = "[]"
           and v = "scalarNode ''!!str'' ''oops'' 1 6"
           and post = "[scalarNode ''!!str'' ''host'' 1 12, scalarNode ''!!str'' ''x'' 1 18]"
           and tg = "''!!map''" and vl = "[]" and l = 1 and c = 1 and al = None
           and schema = ex_host_schema and path = "[]" and ctx = NewValidationContext]
    by simp
  have t2: "expandMappingWithMerges ex_merge_unresolved =
      expandMappingWithMerges (Node MappingNode ''!!map'' [] 1 1
        ([] @ [scalarNode ''!!str'' ''host'' 1 12, scalarNode ''!!str'' ''x'' 1 18]) None) \<and>
     validateMapping ex_merge_unresolved ex_host_schema [] NewValidationContext =
      validateMapping (Node MappingNode ''!!map'' [] 1 1
        ([] @ [scalarNode ''!!str'' ''host'' 1 12, scalarNode ''!!str'' ''x'' 1 18]) None)
        ex_host_schema [] NewValidationContext"
    unfolding ex_merge_unresolved_def
    using h2 merge_value_without_pairs
        [where k = "scalarNode ''!!merge'' ''<<'' 1 2" and pre = "[]"
           and v = "Node AliasNode [] ''gone'' 1 6 [] None"
           and post = "[scalarNode ''!!str'' ''host'' 1 12, scalarNode ''!!str'' ''x'' 1 18]"
           and tg = "''!!map''" and vl = "[]" and l = 1 and c = 1 and al = None
           and schema = ex_host_schema and path = "[]" and ctx = NewValidationContext]
    by (simp add: scalarNode_def)
  show ?thesis
    using h1 h2 t1 t2 a b n1 n2 by simp
qed

section \<open>Integer literals and the range validator\<close>

lemma looksLikeInt_literals:
  "looksLikeInt ''42''" "looksLikeInt ''0x2A''" "looksLikeInt ''0o52''" "looksLikeInt ''0b101010''"
  by code_simp+

lemma ToLower_literals:
  "ToLower ''42'' = ''42''" "ToLower ''0x2A'' = ''0x2a''" "ToLower ''0o52'' = ''0o52''"
  "ToLower ''0b101010'' = ''0b101010''" "ToLower ''052'' = ''052''"
  by code_simp+

lemma ParseFloat_literals:
  "ParseFloat ''42'' = Some (F64 42)" "ParseFloat ''0x2A'' = None" "ParseFloat ''0o52'' = None"
  "ParseFloat ''0b101010'' = None" "ParseFloat ''052'' = Some (F64 52)"
  by code_simp+

lemma ParseInt_literals:
  "ParseInt ''0x2A'' 0 = Some 42" "ParseInt ''52'' 8 = Some 42" "ParseInt ''101010'' 2 = Some 42"
  by code_simp+

lemma float64_of_int_42: "float64_of_int 42 = F64 42"
  by code_simp

lemma parseYAMLNumber_42:
  "parseYAMLNumber (Node k tg ''42'' l c cs al) = Some (F64 42)"
  "parseYAMLNumber (Node k tg ''0x2A'' l c cs al) = Some (F64 42)"
  "parseYAMLNumber (Node k tg ''0o52'' l c cs al) = Some (F64 42)"
  "parseYAMLNumber (Node k tg ''0b101010'' l c cs al) = Some (F64 42)"
  "parseYAMLNumber (Node k tg ''052'' l c cs al) = Some (F64 52)"
  by (simp_all add: parseYAMLNumber_def Let_def ToLower_literals ParseFloat_literals
      ParseInt_literals float64_of_int_42 HasPrefix_def del: ToLower.simps)

lemma parseYAMLNumber_literals:
  "v \<in> {''42'', ''0x2A'', ''0o52'', ''0b101010''} \<Longrightarrow>
   parseYAMLNumber (Node k tg v l c cs al) = Some (F64 42)"
  by (elim insertE emptyE) (simp_all only: parseYAMLNumber_42)

lemma inferScalarType_Int:
  "\<not> StrictTypes ctx \<Longrightarrow> inferScalarType (Node k [] ''42'' l c cs al) ctx = TypeInt"
  "\<not> StrictTypes ctx \<Longrightarrow> inferScalarType (Node k [] ''0x2A'' l c cs al) ctx = TypeInt"
  "\<not> StrictTypes ctx \<Longrightarrow> inferScalarType (Node k [] ''0o52'' l c cs al) ctx = TypeInt"
  "\<not> StrictTypes ctx \<Longrightarrow> inferScalarType (Node k [] ''0b101010'' l c cs al) ctx = TypeInt"
  by (simp_all add: inferScalarType_def Let_def ToLower_literals looksLikeInt_literals
      isYAML11Bool_def del: ToLower.simps)

lemma inferType_literals:
  "v \<in> {''42'', ''0x2A'', ''0o52'', ''0b101010''} \<Longrightarrow> \<not> StrictTypes ctx \<Longrightarrow>
   inferType (Node ScalarNode [] v l c cs al) ctx = TypeInt"
  by (elim insertE emptyE) (simp_all add: inferScalarType_Int)

text \<open>
  C5. When \<^verbatim>\<open>StrictTypes\<close> is off, an untagged scalar with one of the values 42, 0x2A,
  0o52 and 0b101010 is inferred as Int, the range validator reads it as the number 42,
  and its validation against a schema of type Int (not deprecated) whose validator is
  a range from 0 to 100 leaves the context as it was: nothing is recorded. A leading
  zero does not make an octal number: 052 is read as 52.
\<close>

theorem int_literals_in_range:
  "v \<in> {''42'', ''0x2A'', ''0o52'', ''0b101010''} \<and> \<not> StrictTypes ctx \<and>
   node = Node ScalarNode [] v l c cs al \<and>
   schema = FieldSchema TypeInt rq nl [] ds df ak ap pol kvs it mn mx
      [RangeValidator_Validate fmtFloat \<lparr>Min_r = Some (F64 0), Max_r = Some (F64 100)\<rparr>]
      ao eo me cds \<longrightarrow>
     inferType node ctx = TypeInt \<and>
     parseYAMLNumber node = Some (F64 42) \<and>
     RangeValidator_Validate fmtFloat \<lparr>Min_r = Some (F64 0), Max_r = Some (F64 100)\<rparr>
       node (cleanPath path) ctx = ctx \<and>
     validateNode node (Some schema) path ctx = Some ctx \<and>
     parseYAMLNumber (Node ScalarNode [] ''052'' l c cs al) = Some (F64 52)"
proof (intro impI, elim conjE)
  assume v: "v \<in> {''42'', ''0x2A'', ''0o52'', ''0b101010''}" and st: "\<not> StrictTypes ctx"
    and n: "node = Node ScalarNode [] v l c cs al"
    and s: "schema = FieldSchema TypeInt rq nl [] ds df ak ap pol kvs it mn mx
      [RangeValidator_Validate fmtFloat \<lparr>Min_r = Some (F64 0), Max_r = Some (F64 100)\<rparr>]
      ao eo me cds"
  have i: "inferType node ctx = TypeInt"
    unfolding n using v st by (rule inferType_literals)
  have p: "parseYAMLNumber node = Some (F64 42)"
    unfolding n using v by (rule parseYAMLNumber_literals)
  have r: "RangeValidator_Validate fmtFloat \<lparr>Min_r = Some (F64 0), Max_r = Some (F64 100)\<rparr>
       node (cleanPath path) ctx = ctx"
    by (simp add: RangeValidator_Validate_def p)
  have t: "checkTypeWithSchema node schema path ctx = (True, ctx)"
    using i by (simp add: checkTypeWithSchema_cases s)
  have k: "Kind node = ScalarNode" by (simp add: n)
  have vn: "validateNode node (Some schema) path ctx = Some ctx"
  proof (cases "IsStopped ctx")
    case True
    then show ?thesis by (simp add: validateNode.simps)
  next
    case False
    have "validateNode node (Some schema) path ctx =
        Some (runValidators (Validators schema) node (cleanPath path) ctx)"
      using False k t by (simp add: validateNode.simps s)
    then show ?thesis using False r by (simp add: s)
  qed
  have z: "parseYAMLNumber (Node ScalarNode [] ''052'' l c cs al) = Some (F64 52)"
    by (rule parseYAMLNumber_42)
  show "inferType node ctx = TypeInt \<and>
     parseYAMLNumber node = Some (F64 42) \<and>
     RangeValidator_Validate fmtFloat \<lparr>Min_r = Some (F64 0), Max_r = Some (F64 100)\<rparr>
       node (cleanPath path) ctx = ctx \<and>
     validateNode node (Some schema) path ctx = Some ctx \<and>
     parseYAMLNumber (Node ScalarNode [] ''052'' l c cs al) = Some (F64 52)"
    using i p r vn z by simp
qed

theorem int_literals_in_range_witness:
  "''0o52'' \<in> {''42'', ''0x2A'', ''0o52'', ''0b101010''} \<and> \<not> StrictTypes NewValidationContext \<and>
   inferType (Node ScalarNode [] ''0o52'' 3 9 [] None) NewValidationContext = TypeInt \<and>
   parseYAMLNumber (Node ScalarNode [] ''0o52'' 3 9 [] None) = Some (F64 42) \<and>
   validateNode (Node ScalarNode [] ''0o52'' 3 9 [] None)
     (Some (FieldSchema TypeInt False False [] [] None [] None UnknownKeyInherit [] None None None
        [RangeValidator_Validate (\<lambda>f. []) \<lparr>Min_r = Some (F64 0), Max_r = Some (F64 100)\<rparr>]
        [] [] [] []))
     ''port'' NewValidationContext = Some NewValidationContext \<and>
   errors (collector (RangeValidator_Validate (\<lambda>f. [])
       \<lparr>Min_r = Some (F64 0), Max_r = Some (F64 100)\<rparr>
       (Node ScalarNode [] ''0x2A0'' 3 9 [] None) ''port'' NewValidationContext)) =
     [\<lparr>Level = LevelError, Path = ''port'', Line = 3, Column = 9,
       Message = ''value above maximum'', Got = [], Expected = ''<= ''\<rparr>]"
proof -
  have h: "''0o52'' \<in> {''42'', ''0x2A'', ''0o52'', ''0b101010''} \<and>
      \<not> StrictTypes NewValidationContext"
    by (simp add: NewValidationContext_def)
  have above: "errors (collector (RangeValidator_Validate (\<lambda>f. [])
       \<lparr>Min_r = Some (F64 0), Max_r = Some (F64 100)\<rparr>
       (Node ScalarNode [] ''0x2A0'' 3 9 [] None) ''port'' NewValidationContext)) =
     [\<lparr>Level = LevelError, Path = ''port'', Line = 3, Column = 9,
       Message = ''value above maximum'', Got = [], Expected = ''<= ''\<rparr>]"
    by code_simp
  show ?thesis
    using h above
      int_literals_in_range
        [where v = "''0o52''" and ctx = NewValidationContext
           and node = "Node ScalarNode [] ''0o52'' 3 9 [] None" and l = 3 and c = 9
           and cs = "[]" and al = None
           and schema = "FieldSchema TypeInt False False [] [] None [] None UnknownKeyInherit []
              None None None
              [RangeValidator_Validate (\<lambda>f. []) \<lparr>Min_r = Some (F64 0), Max_r = Some (F64 100)\<rparr>]
              [] [] [] []"
           and rq = False and nl = False and ds = "[]" and df = None and ak = "[]" and ap = None
           and pol = UnknownKeyInherit and kvs = "[]" and it = None and mn = None and mx = None
           and fmtFloat = "\<lambda>f. []" and ao = "[]" and eo = "[]" and me = "[]" and cds = "[]"
           and path = "''port''"]
    by simp
qed

section \<open>The caret\<close>

text \<open>
  C6. The renderer at work. A tab is expanded to the next tab stop, and byte column 4
  of \<^verbatim>\<open>ab<TAB>cd\<close> gives the caret column 5. A byte column past the end of the line is
  clamped to one past the last visual column. In the line of the two-byte rune U+00E9
  followed by \<^verbatim>\<open>x\<close>, byte column 1 (before the rune) gives caret column 1 and byte
  column 3 (before \<^verbatim>\<open>x\<close>) gives caret column 2; byte column 2, which falls inside the
  rune, gives caret column 2, the column after the rune, where the comment of the
  function and the specification promise the column before it, 1.
\<close>

theorem renderLineWithCaret_inside_rune:
  "renderLineWithCaret [CHR ''a'', CHR ''b'', CHR 0x09, CHR ''c'', CHR ''d''] 4 = (''ab  cd'', 5, 6) \<and>
   renderLineWithCaret [CHR ''a'', CHR ''b'', CHR 0x09, CHR ''c'', CHR ''d''] 99 = (''ab  cd'', 7, 6) \<and>
   renderLineWithCaret [CHR 0xC3, CHR 0xA9, CHR ''x''] 1 = ([CHR 0xC3, CHR 0xA9, CHR ''x''], 1, 2) \<and>
   renderLineWithCaret [CHR 0xC3, CHR 0xA9, CHR ''x''] 3 = ([CHR 0xC3, CHR 0xA9, CHR ''x''], 2, 2) \<and>
   renderLineWithCaret [CHR 0xC3, CHR 0xA9, CHR ''x''] 2 = ([CHR 0xC3, CHR 0xA9, CHR ''x''], 2, 2)"
  by code_simp

end
